theory Spec2Isabelle
  imports Complex_Main "HOL-Library.AList"
begin

section \<open>Python values used by the builder\<close>

text \<open>
  The builder of \<^verbatim>\<open>src/video/builder.py\<close> is dynamically typed. The values that reach
  it are modelled as follows.

  \<^item> A number is a Python \<^verbatim>\<open>int\<close> (unbounded, \<open>PyInt\<close>) or a Python \<^verbatim>\<open>float\<close>
    (\<open>PyFloat\<close>). The float type is a type parameter \<open>'f\<close>: what the interpreter does
    with a float (truth value, \<^verbatim>\<open>str\<close>, product with an int, \<^verbatim>\<open>int\<close>) is not code of
    the repository and is taken as a parameter, the record \<open>py_runtime\<close>. The runtime
    \<open>double_runtime\<close> below gives these operations for IEEE 754 doubles.
  \<^item> A configuration value is \<^verbatim>\<open>None\<close>, a number or a string.
  \<^item> A dict is the list of its items in insertion order; \<^verbatim>\<open>d.get(k)\<close> is \<open>map_of d k\<close>
    and \<^verbatim>\<open>bool(d)\<close> is \<open>d \<noteq> []\<close>.
\<close>

datatype 'f pynum = PyInt int | PyFloat 'f

datatype 'f pyval = PyNone | PyNum "'f pynum" | PyStr string

type_synonym 'f dict = "(string \<times> 'f pyval) list"

text \<open>An argument passed for \<^verbatim>\<open>dimensions\<close>: a tuple, a list, or any other object.\<close>

datatype 'f pyobj = PyTuple "'f pyval list" | PyList "'f pyval list" | PyScalar "'f pyval"

record 'f py_runtime =
  float_bool :: "'f \<Rightarrow> bool"
  float_str :: "'f \<Rightarrow> string"
  float_mul :: "'f \<Rightarrow> int \<Rightarrow> 'f"
  float_int :: "'f \<Rightarrow> string + int"

text \<open>
  The float type cut down to the single value \<^verbatim>\<open>nan\<close>: \<^verbatim>\<open>bool(nan)\<close> is true,
  \<^verbatim>\<open>str(nan)\<close> is \<^verbatim>\<open>'nan'\<close>, \<^verbatim>\<open>nan * n\<close> is \<^verbatim>\<open>nan\<close> and \<^verbatim>\<open>int(nan)\<close> raises. It gives
  a concrete runtime for inputs evaluated below.
\<close>

definition nan_runtime :: "unit py_runtime" where
  "nan_runtime =
     \<lparr> float_bool = (\<lambda>_. True),
       float_str = (\<lambda>_. ''nan''),
       float_mul = (\<lambda>x _. x),
       float_int = (\<lambda>_. Inl ''ValueError: cannot convert float NaN to integer'') \<rparr>"

subsection \<open>Decimal formatting of an int\<close>

definition digit_char :: "nat \<Rightarrow> char" where
  "digit_char d = ''0123456789'' ! d"

fun str_nat :: "nat \<Rightarrow> string" where
  "str_nat n = (if n < 10 then [digit_char n] else str_nat (n div 10) @ [digit_char (n mod 10)])"

declare str_nat.simps [simp del]

definition str_int :: "int \<Rightarrow> string" where
  "str_int i = (if i < 0 then CHR ''-'' # str_nat (nat (- i)) else str_nat (nat i))"

subsection \<open>Truth value, formatting, arithmetic\<close>

fun num_bool :: "'f py_runtime \<Rightarrow> 'f pynum \<Rightarrow> bool" where
  "num_bool rt (PyInt i) = (i \<noteq> 0)"
| "num_bool rt (PyFloat x) = float_bool rt x"

fun num_str :: "'f py_runtime \<Rightarrow> 'f pynum \<Rightarrow> string" where
  "num_str rt (PyInt i) = str_int i"
| "num_str rt (PyFloat x) = float_str rt x"

fun num_mul :: "'f py_runtime \<Rightarrow> 'f pynum \<Rightarrow> int \<Rightarrow> 'f pynum" where
  "num_mul rt (PyInt i) n = PyInt (i * n)"
| "num_mul rt (PyFloat x) n = PyFloat (float_mul rt x n)"

fun num_int :: "'f py_runtime \<Rightarrow> 'f pynum \<Rightarrow> string + int" where
  "num_int rt (PyInt i) = Inr i"
| "num_int rt (PyFloat x) = float_int rt x"

fun py_bool :: "'f py_runtime \<Rightarrow> 'f pyval \<Rightarrow> bool" where
  "py_bool rt PyNone = False"
| "py_bool rt (PyNum n) = num_bool rt n"
| "py_bool rt (PyStr s) = (s \<noteq> [])"

fun py_str :: "'f py_runtime \<Rightarrow> 'f pyval \<Rightarrow> string" where
  "py_str rt PyNone = ''None''"
| "py_str rt (PyNum n) = num_str rt n"
| "py_str rt (PyStr s) = s"

text \<open>\<^verbatim>\<open>sep.join(parts)\<close>.\<close>

fun join :: "string \<Rightarrow> string list \<Rightarrow> string" where
  "join sep [] = []"
| "join sep [p] = p"
| "join sep (p # q # ps) = p @ sep @ join sep (q # ps)"

section \<open>Python floats as IEEE 754 doubles\<close>

text \<open>
  A Python float is a binary64 value: \<open>Finite s m e\<close> stands for \<open>(-1)\<^sup>s \<cdot> m \<cdot> 2\<^sup>e\<close>, with
  \<open>m < 2\<^sup>5\<^sup>3\<close> and \<open>-1074 \<le> e \<le> 971\<close>; \<open>Infinity s\<close> is \<^verbatim>\<open>inf\<close> or \<^verbatim>\<open>-inf\<close>.
  \<open>double_round s m e\<close> is the double nearest to \<open>(-1)\<^sup>s \<cdot> m \<cdot> 2\<^sup>e\<close> for any \<open>m\<close> and \<open>e\<close>,
  halfway cases going to the even mantissa, and an infinity when the rounded value
  exceeds the largest double. \<open>double_mul\<close> is the product of two doubles,
  \<open>double_of_int\<close> is \<^verbatim>\<open>float(n)\<close>, and \<^verbatim>\<open>x * n\<close> for a float \<open>x\<close> and an int \<open>n\<close> is
  \<open>double_mul x (double_of_int n)\<close>. (Where \<^verbatim>\<open>float(n)\<close> raises for an int beyond the
  doubles, \<open>double_of_int\<close> is an infinity; the builder multiplies by 25 only.)
  \<open>double_int\<close> is \<^verbatim>\<open>int(x)\<close>: truncation towards zero, an error on \<^verbatim>\<open>inf\<close> and \<^verbatim>\<open>nan\<close>.
  The formatter \<^verbatim>\<open>str\<close> stays a parameter of \<open>double_runtime\<close>.
\<close>

datatype double = Finite bool nat int | Infinity bool | NaN

fun bit_length :: "nat \<Rightarrow> nat" where
  "bit_length n = (if n = 0 then 0 else Suc (bit_length (n div 2)))"

declare bit_length.simps [simp del]

definition round_half_even :: "nat \<Rightarrow> nat \<Rightarrow> nat" where
  "round_half_even m k =
     (let q = m div 2 ^ k; r = m mod 2 ^ k
      in if 2 ^ k < 2 * r \<or> (2 * r = 2 ^ k \<and> odd q) then q + 1 else q)"

definition double_round :: "bool \<Rightarrow> nat \<Rightarrow> int \<Rightarrow> double" where
  "double_round s m e =
     (let t = max (e + int (bit_length m) - 53) (- 1074)
      in if t \<le> e then
           (if e \<le> 971 then Finite s m e
            else if m * 2 ^ nat (e - 971) < 2 ^ 53 then Finite s (m * 2 ^ nat (e - 971)) 971
            else Infinity s)
         else
           (let q = round_half_even m (nat (t - e))
            in if q = 2 ^ 53
               then (if 971 < t + 1 then Infinity s else Finite s (2 ^ 52) (t + 1))
               else if 971 < t then Infinity s else Finite s q t))"

fun double_mul :: "double \<Rightarrow> double \<Rightarrow> double" where
  "double_mul NaN y = NaN"
| "double_mul x NaN = NaN"
| "double_mul (Infinity s) (Infinity t) = Infinity (s \<noteq> t)"
| "double_mul (Infinity s) (Finite t n f) = (if n = 0 then NaN else Infinity (s \<noteq> t))"
| "double_mul (Finite s m e) (Infinity t) = (if m = 0 then NaN else Infinity (s \<noteq> t))"
| "double_mul (Finite s m e) (Finite t n f) = double_round (s \<noteq> t) (m * n) (e + f)"

definition double_of_int :: "int \<Rightarrow> double" where
  "double_of_int n = double_round (n < 0) (nat \<bar>n\<bar>) 0"

fun double_bool :: "double \<Rightarrow> bool" where
  "double_bool (Finite s m e) = (m \<noteq> 0)"
| "double_bool (Infinity s) = True"
| "double_bool NaN = True"

fun double_int :: "double \<Rightarrow> string + int" where
  "double_int (Finite s m e) =
     (let a = (if 0 \<le> e then int m * 2 ^ nat e else int m div 2 ^ nat (- e))
      in Inr (if s then - a else a))"
| "double_int (Infinity s) = Inl ''OverflowError: cannot convert float infinity to integer''"
| "double_int NaN = Inl ''ValueError: cannot convert float NaN to integer''"

definition double_runtime :: "(double \<Rightarrow> string) \<Rightarrow> double py_runtime" where
  "double_runtime fmt =
     \<lparr> float_bool = double_bool,
       float_str = fmt,
       float_mul = (\<lambda>x n. double_mul x (double_of_int n)),
       float_int = double_int \<rparr>"

text \<open>The value of a finite double, and of a number, as a real.\<close>

fun double_val :: "double \<Rightarrow> real" where
  "double_val (Finite s m e) =
     (if s then - 1 else 1) * real m * (if 0 \<le> e then 2 ^ nat e else 1 / 2 ^ nat (- e))"
| "double_val (Infinity s) = 0"
| "double_val NaN = 0"

fun num_val :: "double pynum \<Rightarrow> real" where
  "num_val (PyInt k) = real_of_int k"
| "num_val (PyFloat x) = double_val x"

text \<open>\<^verbatim>\<open>d > 0\<close>, and \<^verbatim>\<open>d\<close> is neither infinite nor \<^verbatim>\<open>nan\<close>.\<close>

fun num_positive :: "double pynum \<Rightarrow> bool" where
  "num_positive (PyInt k) = (0 < k)"
| "num_positive (PyFloat (Finite s m e)) = (\<not> s \<and> 0 < m)"
| "num_positive (PyFloat (Infinity s)) = (\<not> s)"
| "num_positive (PyFloat NaN) = False"

fun num_finite :: "double pynum \<Rightarrow> bool" where
  "num_finite (PyInt k) = True"
| "num_finite (PyFloat (Finite s m e)) = True"
| "num_finite (PyFloat (Infinity s)) = False"
| "num_finite (PyFloat NaN) = False"

section \<open>The builder\<close>

text \<open>
  Every \<^verbatim>\<open>raise\<close> of the source is a \<^verbatim>\<open>ValueError\<close> with a message of its own. An
  exception raised inside a callee (the media inspector, or the interpreter converting
  the duration) passes through \<^verbatim>\<open>build_command\<close> unchanged: \<open>Propagated\<close>.
\<close>

datatype error = ValueError string | Propagated string

text \<open>
  \<^verbatim>\<open>self.background\<close> is \<^verbatim>\<open>None\<close> or one of the two dicts the setters store, told apart
  by their \<^verbatim>\<open>"type"\<close> entry: \<^verbatim>\<open>{"type": "image", "file": .., "ken_burns": ..}\<close> and
  \<^verbatim>\<open>{"type": "video", "file": ..}\<close>.
\<close>

datatype 'f background = ImageBackground string "'f dict" | VideoBackground string

text \<open>
  The media inspector (\<^verbatim>\<open>video.media.MediaUtils\<close>, not part of the sources): only
  \<^verbatim>\<open>get_audio_info\<close> is called by \<^verbatim>\<open>build_command\<close>. It returns a dict whose
  \<^verbatim>\<open>"duration"\<close> entry, when present, is a number or \<^verbatim>\<open>None\<close>, or it raises.
\<close>

type_synonym 'f media_info = "(string \<times> 'f pynum option) list"

record 'f media_utils =
  get_audio_info :: "string \<Rightarrow> string + 'f media_info"

record 'f builder =
  width :: "'f pyval"
  height :: "'f pyval"
  ffmpeg_path :: string
  background :: "'f background option"
  audio_file :: "string option"
  captions :: "'f dict option"
  output_path :: string
  media_utils :: "'f media_utils option"

subsection \<open>Constructor and setters\<close>

definition dimensions_error :: error where
  "dimensions_error = ValueError ''Dimensions must be a tuple of (width, height).''"

definition init :: "'f pyobj \<Rightarrow> string \<Rightarrow> error + 'f builder" where
  "init dimensions ffmpeg =
     (case dimensions of
        PyTuple items \<Rightarrow>
          if length items \<noteq> 2 then Inl dimensions_error
          else Inr \<lparr> width = items ! 0, height = items ! 1, ffmpeg_path = ffmpeg,
                     background = None, audio_file = None, captions = None,
                     output_path = ''output.mp4'', media_utils = None \<rparr>
      | PyList items \<Rightarrow> Inl dimensions_error
      | PyScalar v \<Rightarrow> Inl dimensions_error)"

text \<open>\<^verbatim>\<open>config or {}\<close>\<close>

definition or_empty :: "'f dict option \<Rightarrow> 'f dict" where
  "or_empty config = (case config of None \<Rightarrow> [] | Some d \<Rightarrow> d)"

text \<open>\<^verbatim>\<open>{**base, **extra}\<close>: the items of \<open>extra\<close> are stored one after the other.\<close>

fun dict_merge :: "'f dict \<Rightarrow> 'f dict \<Rightarrow> 'f dict" where
  "dict_merge base [] = base"
| "dict_merge base ((k, v) # extra) = dict_merge (AList.update k v base) extra"

definition set_media_utils :: "'f media_utils \<Rightarrow> 'f builder \<Rightarrow> 'f builder" where
  "set_media_utils mu b = b\<lparr>media_utils := Some mu\<rparr>"

definition set_background_image ::
    "string \<Rightarrow> 'f dict option \<Rightarrow> 'f builder \<Rightarrow> 'f builder" where
  "set_background_image file_path ken_burns_config b =
     b\<lparr>background := Some (ImageBackground file_path (or_empty ken_burns_config))\<rparr>"

definition set_background_video :: "string \<Rightarrow> 'f builder \<Rightarrow> 'f builder" where
  "set_background_video file_path b = b\<lparr>background := Some (VideoBackground file_path)\<rparr>"

definition set_audio :: "string \<Rightarrow> 'f builder \<Rightarrow> 'f builder" where
  "set_audio file_path b = b\<lparr>audio_file := Some file_path\<rparr>"

definition set_captions ::
    "string option \<Rightarrow> 'f dict option \<Rightarrow> 'f builder \<Rightarrow> 'f builder" where
  "set_captions file_path config b =
     b\<lparr>captions :=
         Some (dict_merge
                 [(''file'', case file_path of None \<Rightarrow> PyNone | Some p \<Rightarrow> PyStr p)]
                 (or_empty config))\<rparr>"

definition set_output_path :: "string \<Rightarrow> 'f builder \<Rightarrow> 'f builder" where
  "set_output_path path b = b\<lparr>output_path := path\<rparr>"

subsection \<open>\<^verbatim>\<open>build_command\<close>\<close>

text \<open>\<^verbatim>\<open>bool(self.audio_file)\<close> and \<^verbatim>\<open>bool(self.captions)\<close>.\<close>

definition has_audio :: "'f builder \<Rightarrow> bool" where
  "has_audio b = (case audio_file b of None \<Rightarrow> False | Some a \<Rightarrow> a \<noteq> [])"

definition has_captions :: "'f builder \<Rightarrow> bool" where
  "has_captions b = (case captions b of None \<Rightarrow> False | Some c \<Rightarrow> c \<noteq> [])"

definition is_image :: "'f background \<Rightarrow> bool" where
  "is_image bg = (case bg of ImageBackground f k \<Rightarrow> True | VideoBackground f \<Rightarrow> False)"

definition is_video :: "'f background \<Rightarrow> bool" where
  "is_video bg = (case bg of ImageBackground f k \<Rightarrow> False | VideoBackground f \<Rightarrow> True)"

text \<open>The messages of the four validation checks, lines 75 to 94.\<close>

definition no_background :: error where
  "no_background = ValueError ''Background must be set (image or video).''"

definition no_audio_no_captions :: error where
  "no_audio_no_captions =
     ValueError ''At least one of audio_file, or captions must be provided.''"

definition image_without_audio :: error where
  "image_without_audio = ValueError ''Audio file must be provided if background is an image.''"

definition video_without_audio_or_captions :: error where
  "video_without_audio_or_captions =
     ValueError ''Audio file or captions must be provided if background is a video.''"

text \<open>The messages of lines 99 to 106.\<close>

definition no_media_manager :: error where
  "no_media_manager = ValueError ''Media manager must be set to determine audio duration.''"

definition no_audio_duration :: error where
  "no_audio_duration = ValueError ''Could not determine audio duration''"

text \<open>
  The audio duration, a number or \<^verbatim>\<open>None\<close>: its truth value, \<^verbatim>\<open>str\<close>, and
  \<^verbatim>\<open>int(audio_duration * fps)\<close>.
\<close>

definition dur_bool :: "'f py_runtime \<Rightarrow> 'f pynum option \<Rightarrow> bool" where
  "dur_bool rt d = (case d of None \<Rightarrow> False | Some n \<Rightarrow> num_bool rt n)"

definition dur_str :: "'f py_runtime \<Rightarrow> 'f pynum option \<Rightarrow> string" where
  "dur_str rt d = (case d of None \<Rightarrow> ''None'' | Some n \<Rightarrow> num_str rt n)"

definition fps :: int where
  "fps = 25"

definition duration_frames :: "'f py_runtime \<Rightarrow> 'f pynum option \<Rightarrow> error + int" where
  "duration_frames rt d =
     (case d of
        None \<Rightarrow> Inl (Propagated ''TypeError: unsupported operand type(s) for *'')
      | Some n \<Rightarrow>
          (case num_int rt (num_mul rt n fps) of
             Inl x \<Rightarrow> Inl (Propagated x)
           | Inr k \<Rightarrow> Inr k))"

text \<open>\<^verbatim>\<open>media_info.get("duration")\<close>\<close>

definition reported_duration :: "'f media_info \<Rightarrow> 'f pynum option" where
  "reported_duration media_info =
     (case map_of media_info ''duration'' of None \<Rightarrow> None | Some v \<Rightarrow> v)"

text \<open>Lines 97 to 106: the duration of the audio file, asked of the media inspector.\<close>

definition audio_duration :: "'f py_runtime \<Rightarrow> 'f builder \<Rightarrow> error + 'f pynum option" where
  "audio_duration rt b =
     (case audio_file b of
        None \<Rightarrow> Inr None
      | Some a \<Rightarrow>
          if a = [] then Inr None
          else
            (case media_utils b of
               None \<Rightarrow> Inl no_media_manager
             | Some mu \<Rightarrow>
                 (case get_audio_info mu a of
                    Inl x \<Rightarrow> Inl (Propagated x)
                  | Inr media_info \<Rightarrow>
                      let d = reported_duration media_info
                      in if \<not> dur_bool rt d then Inl no_audio_duration else Inr d)))"

text \<open>Lines 121 to 131: the three pan and zoom expressions, and the one that is used.\<close>

definition quote :: char where
  "quote = CHR 0x27"

definition zoom_factor_text :: "'f py_runtime \<Rightarrow> 'f dict \<Rightarrow> string" where
  "zoom_factor_text rt ken_burns_config =
     (case map_of ken_burns_config ''zoom_factor'' of
        None \<Rightarrow> ''0.001''
      | Some v \<Rightarrow> py_str rt v)"

definition zoom_expressions :: "string \<Rightarrow> (string \<times> string) list" where
  "zoom_expressions zf =
     [(''zoom-to-top'',
         ''z='' @ [quote] @ ''zoom+'' @ zf @ [quote] @ '':x=iw/2-(iw/zoom/2):y=0''),
      (''zoom-to-center'',
         ''z='' @ [quote] @ ''zoom+'' @ zf @ [quote]
           @ '':x=iw/2-(iw/zoom/2):y=ih/2-(ih/zoom/2)''),
      (''zoom-to-top-left'',
         ''z='' @ [quote] @ ''zoom+'' @ zf @ [quote] @ '':x=0:y=0'')]"

definition zoom_expr :: "'f py_runtime \<Rightarrow> 'f dict \<Rightarrow> error + string" where
  "zoom_expr rt ken_burns_config =
     (case map_of (zoom_expressions (zoom_factor_text rt ken_burns_config))
             ''zoom-to-top-left'' of
        None \<Rightarrow> Inl (Propagated ''KeyError'')
      | Some e \<Rightarrow> Inr e)"

text \<open>The filter stage of an image background, lines 137 to 139.\<close>

definition image_filter :: "'f py_runtime \<Rightarrow> 'f builder \<Rightarrow> nat \<Rightarrow> string \<Rightarrow> int \<Rightarrow> string" where
  "image_filter rt b input_index ze zoompan_d =
     ''['' @ str_nat input_index @ '']scale='' @ py_str rt (width b) @ '':-2,setsar=1:1,''
       @ ''crop='' @ py_str rt (width b) @ '':'' @ py_str rt (height b) @ '',''
       @ ''zoompan='' @ ze @ '':d='' @ str_int zoompan_d
       @ '':s='' @ py_str rt (width b) @ ''x'' @ py_str rt (height b)
       @ '':fps='' @ str_int fps @ ''[bg]''"

text \<open>The filter stage of a video background, line 156.\<close>

definition video_filter :: "'f py_runtime \<Rightarrow> 'f builder \<Rightarrow> nat \<Rightarrow> string" where
  "video_filter rt b input_index =
     ''['' @ str_nat input_index @ '']scale='' @ py_str rt (width b) @ '':''
       @ py_str rt (height b) @ ''[bg]''"

text \<open>
  Lines 115 to 156: the input declaration of the background and its filter stage, for
  the input index \<open>input_index\<close>.
\<close>

definition add_background ::
    "'f py_runtime \<Rightarrow> 'f builder \<Rightarrow> 'f background \<Rightarrow> 'f pynum option \<Rightarrow> nat
       \<Rightarrow> error + (string list \<times> string list)" where
  "add_background rt b bg d input_index =
     (case bg of
        ImageBackground file ken_burns_config \<Rightarrow>
          (case zoom_expr rt ken_burns_config of
             Inl e \<Rightarrow> Inl e
           | Inr ze \<Rightarrow>
               (case duration_frames rt d of
                  Inl e \<Rightarrow> Inl e
                | Inr frames \<Rightarrow>
                    let zoompan_d = frames + 1 in
                    Inr ([''-loop'', ''1'', ''-t'', dur_str rt d, ''-i'', file],
                         [image_filter rt b input_index ze zoompan_d])))
      | VideoBackground file \<Rightarrow>
          Inr (if dur_bool rt d
               then [''-stream_loop'', ''-1'', ''-t'', dur_str rt d, ''-i'', file]
               else [''-i'', file],
               [video_filter rt b input_index]))"

text \<open>\<^verbatim>\<open>self.captions.get("file")\<close>\<close>

definition subtitle_file :: "'f builder \<Rightarrow> 'f pyval" where
  "subtitle_file b =
     (case map_of (or_empty (captions b)) ''file'' of None \<Rightarrow> PyNone | Some v \<Rightarrow> v)"

text \<open>Lines 169 to 178: the caption stage, on the filter stages and the current label.\<close>

definition add_captions ::
    "'f py_runtime \<Rightarrow> 'f builder \<Rightarrow> string list \<Rightarrow> string \<Rightarrow> string list \<times> string" where
  "add_captions rt b filter_parts current_video =
     (if has_captions b then
        (if py_bool rt (subtitle_file b)
         then (filter_parts
                 @ [current_video @ ''subtitles='' @ py_str rt (subtitle_file b) @ ''[v]''],
               ''[v]'')
         else (filter_parts, current_video))
      else if current_video = ''[bg]''
        then (filter_parts @ [''[bg]copy[v]''], ''[v]'')
        else (filter_parts, current_video))"

text \<open>The input declaration of the audio file, lines 163 and 164.\<close>

definition audio_input :: "'f builder \<Rightarrow> string list" where
  "audio_input b =
     (case audio_file b of None \<Rightarrow> [] | Some a \<Rightarrow> if a \<noteq> [] then [''-i'', a] else [])"

text \<open>The audio codec flags and the cap on the output duration, lines 195 to 198.\<close>

definition audio_codec :: "'f py_runtime \<Rightarrow> 'f builder \<Rightarrow> 'f pynum option \<Rightarrow> string list" where
  "audio_codec rt b d =
     (if has_audio b
      then [''-c:a'', ''aac'', ''-b:a'', ''192k'']
             @ (if dur_bool rt d then [''-t'', dur_str rt d] else [])
      else [])"

text \<open>
  Lines 158 to 201: the audio input, the caption stage, the filter graph, the stream
  mappings and the codec flags, appended to the command \<open>cmd\<close> that holds the encoder
  path, the overwrite flag and the input of the background.
\<close>

definition finish_command ::
    "'f py_runtime \<Rightarrow> 'f builder \<Rightarrow> 'f pynum option \<Rightarrow> string list \<Rightarrow> string list
       \<Rightarrow> string list" where
  "finish_command rt b d cmd filter_parts =
     (let input_index = (1::nat);
          current_video = ''[bg]'';
          cmd = cmd @ audio_input b;
          audio_input_index = (if has_audio b then Some input_index else None);
          (filter_parts, current_video) = add_captions rt b filter_parts current_video;
          cmd = (if filter_parts \<noteq> []
                 then cmd @ [''-filter_complex'', join '';'' filter_parts]
                 else cmd);
          cmd = cmd @ [''-map'', current_video];
          cmd = (case audio_input_index of
                   None \<Rightarrow> cmd
                 | Some i \<Rightarrow> cmd @ [''-map'', str_nat i @ '':a'']);
          cmd = cmd @ [''-c:v'', ''libx264'', ''-preset'', ''ultrafast''];
          cmd = cmd @ [''-crf'', ''23'', ''-pix_fmt'', ''yuv420p''];
          cmd = cmd @ audio_codec rt b d
      in cmd @ [output_path b])"

text \<open>Lines 73 to 201.\<close>

definition build_command :: "'f py_runtime \<Rightarrow> 'f builder \<Rightarrow> error + string list" where
  "build_command rt b =
     (case background b of
        None \<Rightarrow> Inl no_background
      | Some bg \<Rightarrow>
          if \<not> has_audio b \<and> \<not> has_captions b then Inl no_audio_no_captions
          else if is_image bg \<and> \<not> has_audio b then Inl image_without_audio
          else if is_video bg \<and> \<not> has_audio b \<and> captions b = None
            then Inl video_without_audio_or_captions
          else
            (case audio_duration rt b of
               Inl e \<Rightarrow> Inl e
             | Inr d \<Rightarrow>
                 (case add_background rt b bg d 0 of
                    Inl e \<Rightarrow> Inl e
                  | Inr (bg_input, bg_filter) \<Rightarrow>
                      Inr (finish_command rt b d
                             ([ffmpeg_path b, ''-y''] @ bg_input) bg_filter))))"

subsection \<open>\<^verbatim>\<open>build_command\<close>, statement by statement\<close>

text \<open>
  The same method as a sequence of statements on a frame: the object \<^verbatim>\<open>self\<close> and the
  local variables of the method. A statement gives the frame after it, or the error it
  raises; \<open>run\<close> executes statements in order and stops at the first error, with the
  frame as it was before the raising statement. An assignment to an attribute of
  \<^verbatim>\<open>self\<close>, or a change of one of its dicts, would be an update of the field \<open>self\<close>.
  The media inspector is a function of the path.
\<close>

record 'f frame =
  self :: "'f builder"
  l_audio_duration :: "'f pynum option"
  l_cmd :: "string list"
  l_filter_parts :: "string list"
  l_input_index :: nat
  l_current_video :: string
  l_audio_input_index :: "nat option"

type_synonym 'f statement = "'f frame \<Rightarrow> error + 'f frame"

fun run :: "'f statement list \<Rightarrow> 'f frame \<Rightarrow> error option \<times> 'f frame" where
  "run [] fr = (None, fr)"
| "run (s # ss) fr = (case s fr of Inl e \<Rightarrow> (Some e, fr) | Inr fr' \<Rightarrow> run ss fr')"

declare run.simps [simp del]

text \<open>The frame on entry: no local variable is bound yet.\<close>

definition enter :: "'f builder \<Rightarrow> 'f frame" where
  "enter b =
     \<lparr> self = b, l_audio_duration = None, l_cmd = [], l_filter_parts = [],
       l_input_index = 0, l_current_video = [], l_audio_input_index = None \<rparr>"

text \<open>Lines 75 to 94.\<close>

definition check_background :: "'f statement" where
  "check_background fr =
     (case background (self fr) of None \<Rightarrow> Inl no_background | Some bg \<Rightarrow> Inr fr)"

definition check_audio_or_captions :: "'f statement" where
  "check_audio_or_captions fr =
     (if \<not> has_audio (self fr) \<and> \<not> has_captions (self fr) then Inl no_audio_no_captions
      else Inr fr)"

definition check_image :: "'f statement" where
  "check_image fr =
     (case background (self fr) of
        None \<Rightarrow> Inl (Propagated ''TypeError'')
      | Some bg \<Rightarrow>
          if is_image bg \<and> \<not> has_audio (self fr) then Inl image_without_audio else Inr fr)"

definition check_video :: "'f statement" where
  "check_video fr =
     (case background (self fr) of
        None \<Rightarrow> Inl (Propagated ''TypeError'')
      | Some bg \<Rightarrow>
          if is_video bg \<and> \<not> has_audio (self fr) \<and> captions (self fr) = None
          then Inl video_without_audio_or_captions else Inr fr)"

text \<open>Lines 97 to 106.\<close>

definition get_duration :: "'f py_runtime \<Rightarrow> 'f statement" where
  "get_duration rt fr =
     (let fr = fr\<lparr>l_audio_duration := None\<rparr> in
      case audio_file (self fr) of
        None \<Rightarrow> Inr fr
      | Some a \<Rightarrow>
          if a = [] then Inr fr
          else
            (case media_utils (self fr) of
               None \<Rightarrow> Inl no_media_manager
             | Some mu \<Rightarrow>
                 (case get_audio_info mu a of
                    Inl x \<Rightarrow> Inl (Propagated x)
                  | Inr media_info \<Rightarrow>
                      let fr = fr\<lparr>l_audio_duration := reported_duration media_info\<rparr>
                      in if \<not> dur_bool rt (l_audio_duration fr) then Inl no_audio_duration
                         else Inr fr)))"

text \<open>Lines 109 to 112.\<close>

definition start_command :: "'f statement" where
  "start_command fr =
     Inr (fr\<lparr>l_cmd := [ffmpeg_path (self fr), ''-y''], l_filter_parts := [],
              l_input_index := 0\<rparr>)"

text \<open>Lines 115 to 156.\<close>

definition background_input :: "'f py_runtime \<Rightarrow> 'f statement" where
  "background_input rt fr =
     (case background (self fr) of
        None \<Rightarrow> Inl (Propagated ''TypeError'')
      | Some (ImageBackground file ken_burns_config) \<Rightarrow>
          (let fr = fr\<lparr>l_cmd := l_cmd fr
                      @ [''-loop'', ''1'', ''-t'', dur_str rt (l_audio_duration fr), ''-i'',
                         file]\<rparr>
           in case zoom_expr rt ken_burns_config of
                Inl e \<Rightarrow> Inl e
              | Inr ze \<Rightarrow>
                  (case duration_frames rt (l_audio_duration fr) of
                     Inl e \<Rightarrow> Inl e
                   | Inr frames \<Rightarrow>
                       let zoompan_d = frames + 1 in
                       Inr (fr\<lparr>l_filter_parts := l_filter_parts fr
                              @ [image_filter rt (self fr) (l_input_index fr) ze
                                   zoompan_d]\<rparr>)))
      | Some (VideoBackground file) \<Rightarrow>
          (let fr = (if dur_bool rt (l_audio_duration fr)
                     then fr\<lparr>l_cmd := l_cmd fr
                            @ [''-stream_loop'', ''-1'', ''-t'',
                               dur_str rt (l_audio_duration fr), ''-i'', file]\<rparr>
                     else fr\<lparr>l_cmd := l_cmd fr @ [''-i'', file]\<rparr>)
           in Inr (fr\<lparr>l_filter_parts := l_filter_parts fr
                      @ [video_filter rt (self fr) (l_input_index fr)]\<rparr>)))"

text \<open>Lines 158 to 162.\<close>

definition next_input :: "'f statement" where
  "next_input fr =
     Inr (fr\<lparr>l_input_index := l_input_index fr + 1, l_current_video := ''[bg]'',
              l_audio_input_index := None\<rparr>)"

text \<open>Lines 163 to 166.\<close>

definition audio_input_statement :: "'f statement" where
  "audio_input_statement fr =
     (case audio_file (self fr) of
        None \<Rightarrow> Inr fr
      | Some a \<Rightarrow>
          if a = [] then Inr fr
          else Inr (fr\<lparr>l_cmd := l_cmd fr @ [''-i'', a],
                        l_audio_input_index := Some (l_input_index fr),
                        l_input_index := l_input_index fr + 1\<rparr>))"

text \<open>Lines 169 to 178.\<close>

definition captions_statement :: "'f py_runtime \<Rightarrow> 'f statement" where
  "captions_statement rt fr =
     (if has_captions (self fr) then
        (let subtitle = subtitle_file (self fr)
         in if py_bool rt subtitle
            then Inr (fr\<lparr>l_filter_parts := l_filter_parts fr
                         @ [l_current_video fr @ ''subtitles='' @ py_str rt subtitle
                              @ ''[v]''],
                       l_current_video := ''[v]''\<rparr>)
            else Inr fr)
      else if l_current_video fr = ''[bg]''
        then Inr (fr\<lparr>l_current_video := ''[v]'',
                      l_filter_parts := l_filter_parts fr @ [''[bg]copy[v]'']\<rparr>)
        else Inr fr)"

text \<open>Lines 181 and 182.\<close>

definition filter_complex :: "'f statement" where
  "filter_complex fr =
     (if l_filter_parts fr \<noteq> []
      then Inr (fr\<lparr>l_cmd := l_cmd fr
                  @ [''-filter_complex'', join '';'' (l_filter_parts fr)]\<rparr>)
      else Inr fr)"

text \<open>Lines 185 to 187.\<close>

definition map_streams :: "'f statement" where
  "map_streams fr =
     (let fr = fr\<lparr>l_cmd := l_cmd fr @ [''-map'', l_current_video fr]\<rparr>
      in case l_audio_input_index fr of
           None \<Rightarrow> Inr fr
         | Some i \<Rightarrow> Inr (fr\<lparr>l_cmd := l_cmd fr @ [''-map'', str_nat i @ '':a'']\<rparr>))"

text \<open>Lines 190 to 192.\<close>

definition video_codec :: "'f statement" where
  "video_codec fr =
     (let fr = fr\<lparr>l_cmd := l_cmd fr @ [''-c:v'', ''libx264'', ''-preset'', ''ultrafast'']\<rparr>
      in Inr (fr\<lparr>l_cmd := l_cmd fr @ [''-crf'', ''23'', ''-pix_fmt'', ''yuv420p'']\<rparr>))"

text \<open>Lines 195 to 198.\<close>

definition audio_codec_statement :: "'f py_runtime \<Rightarrow> 'f statement" where
  "audio_codec_statement rt fr =
     (if has_audio (self fr) then
        (let fr = fr\<lparr>l_cmd := l_cmd fr @ [''-c:a'', ''aac'', ''-b:a'', ''192k'']\<rparr>
         in if dur_bool rt (l_audio_duration fr)
            then Inr (fr\<lparr>l_cmd := l_cmd fr @ [''-t'', dur_str rt (l_audio_duration fr)]\<rparr>)
            else Inr fr)
      else Inr fr)"

text \<open>Line 200.\<close>

definition append_output :: "'f statement" where
  "append_output fr = Inr (fr\<lparr>l_cmd := l_cmd fr @ [output_path (self fr)]\<rparr>)"

definition build_command_body :: "'f py_runtime \<Rightarrow> 'f statement list" where
  "build_command_body rt =
     [check_background, check_audio_or_captions, check_image, check_video,
      get_duration rt, start_command, background_input rt, next_input,
      audio_input_statement, captions_statement rt, filter_complex, map_streams,
      video_codec, audio_codec_statement rt, append_output]"

text \<open>
  A call of the method: its result (the command of line 201, or the error) and the
  object after the call.
\<close>

definition build_command_method ::
    "'f py_runtime \<Rightarrow> 'f builder \<Rightarrow> (error + string list) \<times> 'f builder" where
  "build_command_method rt b =
     (case run (build_command_body rt) (enter b) of
        (None, fr) \<Rightarrow> (Inr (l_cmd fr), self fr)
      | (Some e, fr) \<Rightarrow> (Inl e, self fr))"

text \<open>A statement that leaves the object as it found it.\<close>

definition keeps_self :: "'f statement \<Rightarrow> bool" where
  "keeps_self s = (\<forall>fr fr'. s fr = Inr fr' \<longrightarrow> self fr' = self fr)"

section \<open>The validation rules as the specification lists them\<close>

text \<open>
  The errors the specification calls \<^verbatim>\<open>InvalidConfiguration\<close> when they come from
  \<^verbatim>\<open>build_command\<close>: the \<^verbatim>\<open>ValueError\<close>s of the validation checks.
\<close>

definition invalid_configuration :: "error \<Rightarrow> bool" where
  "invalid_configuration e =
     (e = no_background \<or> e = no_audio_no_captions \<or> e = image_without_audio
        \<or> e = video_without_audio_or_captions)"

definition background_is_image :: "'f builder \<Rightarrow> bool" where
  "background_is_image b = (case background b of None \<Rightarrow> False | Some bg \<Rightarrow> is_image bg)"

definition background_is_video :: "'f builder \<Rightarrow> bool" where
  "background_is_video b = (case background b of None \<Rightarrow> False | Some bg \<Rightarrow> is_video bg)"

text \<open>
  The first rule that fails, in the order of the specification: the background is
  unset; the audio file and the caption record are both unset; the background is an
  image and the audio file is unset. Unset is what Python tests: \<^verbatim>\<open>None\<close>, an empty
  path, an empty dict.
\<close>

definition failed_rule :: "'f builder \<Rightarrow> error option" where
  "failed_rule b =
     (if background b = None then Some no_background
      else if \<not> has_audio b \<and> \<not> has_captions b then Some no_audio_no_captions
      else if background_is_image b \<and> \<not> has_audio b then Some image_without_audio
      else None)"

section \<open>Example objects\<close>

text \<open>The builder that \<^verbatim>\<open>VideoBuilder((1080, 1920))\<close> constructs.\<close>

definition new_builder :: "unit builder" where
  "new_builder =
     \<lparr> width = PyNum (PyInt 1080), height = PyNum (PyInt 1920), ffmpeg_path = ''ffmpeg'',
       background = None, audio_file = None, captions = None,
       output_path = ''output.mp4'', media_utils = None \<rparr>"

text \<open>An inspector that reports a duration of 10 for every file, and one that reports none.\<close>

definition inspector_10 :: "unit media_utils" where
  "inspector_10 = \<lparr> get_audio_info = (\<lambda>path. Inr [(''duration'', Some (PyInt 10))]) \<rparr>"

definition inspector_silent :: "unit media_utils" where
  "inspector_silent = \<lparr> get_audio_info = (\<lambda>path. Inr []) \<rparr>"

text \<open>The same builder and an inspector that reports the float \<open>x\<close>, for float durations.\<close>

definition float_builder :: "double builder" where
  "float_builder =
     \<lparr> width = PyNum (PyInt 1080), height = PyNum (PyInt 1920), ffmpeg_path = ''ffmpeg'',
       background = None, audio_file = None, captions = None,
       output_path = ''output.mp4'', media_utils = None \<rparr>"

definition inspector_float :: "double \<Rightarrow> double media_utils" where
  "inspector_float x = \<lparr> get_audio_info = (\<lambda>path. Inr [(''duration'', Some (PyFloat x))]) \<rparr>"

section \<open>Auxiliary facts\<close>

subsection \<open>Formatting and dicts\<close>

lemma str_nat_0: "str_nat 0 = ''0''"
  by (simp add: str_nat.simps digit_char_def)

lemma str_nat_Suc_0: "str_nat (Suc 0) = ''1''"
  by (simp add: str_nat.simps digit_char_def)

lemma str_int_fps: "str_int fps = ''25''"
  by (simp add: fps_def str_int_def str_nat.simps digit_char_def)

lemma update_not_Nil: "AList.update k v al \<noteq> []"
  by (cases al) auto

lemma dict_merge_not_Nil: "base \<noteq> [] \<Longrightarrow> dict_merge base extra \<noteq> []"
  by (induction base extra rule: dict_merge.induct) (auto simp: update_not_Nil)

lemma map_of_dict_merge:
  "distinct (map fst extra) \<Longrightarrow> map_of (dict_merge base extra) = map_of base ++ map_of extra"
proof (induction base extra rule: dict_merge.induct)
  case (1 base)
  then show ?case by simp
next
  case (2 base k v extra)
  then have k: "k \<notin> dom (map_of extra)"
    by (auto simp: dom_map_of_conv_image_fst)
  have "map_of (dict_merge (AList.update k v base) extra)
          = map_of (AList.update k v base) ++ map_of extra"
    using 2 by simp
  also have "\<dots> = (map_of base)(k \<mapsto> v) ++ map_of extra"
    by (simp only: update_conv')
  also have "\<dots> = map_of base ++ (map_of extra)(k \<mapsto> v)"
    using k by (auto simp: map_add_def fun_eq_iff split: option.splits)
  finally show ?case by (simp only: dict_merge.simps map_of.simps fst_conv snd_conv)
qed

subsection \<open>The stages of \<^verbatim>\<open>build_command\<close>\<close>

lemma zoom_expr_eq:
  "zoom_expr rt kb =
     Inr (''z='' @ [quote] @ ''zoom+'' @ zoom_factor_text rt kb @ [quote] @ '':x=0:y=0'')"
  by (simp add: zoom_expr_def zoom_expressions_def)

lemma audio_duration_no_audio: "\<not> has_audio b \<Longrightarrow> audio_duration rt b = Inr None"
  by (simp add: audio_duration_def has_audio_def split: option.splits)

lemma audio_duration_no_inspector:
  "audio_file b = Some a \<Longrightarrow> a \<noteq> [] \<Longrightarrow> media_utils b = None \<Longrightarrow>
     audio_duration rt b = Inl no_media_manager"
  by (simp add: audio_duration_def)

lemma audio_duration_raised:
  "audio_file b = Some a \<Longrightarrow> a \<noteq> [] \<Longrightarrow> media_utils b = Some mu \<Longrightarrow>
     get_audio_info mu a = Inl x \<Longrightarrow> audio_duration rt b = Inl (Propagated x)"
  by (simp add: audio_duration_def)

lemma audio_duration_reported:
  "audio_file b = Some a \<Longrightarrow> a \<noteq> [] \<Longrightarrow> media_utils b = Some mu \<Longrightarrow>
     get_audio_info mu a = Inr info \<Longrightarrow>
     audio_duration rt b =
       (if dur_bool rt (reported_duration info) then Inr (reported_duration info)
        else Inl no_audio_duration)"
  by (simp add: audio_duration_def)

lemma audio_duration_Inr:
  "audio_duration rt b = Inr d \<Longrightarrow> (if has_audio b then dur_bool rt d else d = None)"
  by (auto simp: audio_duration_def has_audio_def Let_def split: option.splits if_splits sum.splits)

lemma audio_duration_Inl:
  "audio_duration rt b = Inl e \<Longrightarrow>
     has_audio b \<and> (e = no_media_manager \<or> e = no_audio_duration \<or> (\<exists>x. e = Propagated x))"
  by (auto simp: audio_duration_def has_audio_def Let_def split: option.splits if_splits sum.splits)

lemma add_background_image:
  "add_background rt b (ImageBackground file kb) d i =
     (case duration_frames rt d of
        Inl e \<Rightarrow> Inl e
      | Inr frames \<Rightarrow>
          Inr ([''-loop'', ''1'', ''-t'', dur_str rt d, ''-i'', file],
               [image_filter rt b i
                  (''z='' @ [quote] @ ''zoom+'' @ zoom_factor_text rt kb @ [quote] @ '':x=0:y=0'')
                  (frames + 1)]))"
  by (simp add: add_background_def zoom_expr_eq split: sum.splits)

lemma add_background_video:
  "add_background rt b (VideoBackground file) d i =
     Inr (if dur_bool rt d then [''-stream_loop'', ''-1'', ''-t'', dur_str rt d, ''-i'', file]
          else [''-i'', file],
          [video_filter rt b i])"
  by (simp add: add_background_def)

lemma add_background_Inl:
  "add_background rt b bg d i = Inl e \<Longrightarrow> \<exists>x. e = Propagated x"
  by (cases bg) (auto simp: add_background_image add_background_video duration_frames_def
      split: sum.splits option.splits)

lemma add_captions_none:
  "captions b = None \<Longrightarrow>
     add_captions rt b parts ''[bg]'' = (parts @ [''[bg]copy[v]''], ''[v]'')"
  by (simp add: add_captions_def has_captions_def)

lemma add_captions_no_file:
  "has_captions b \<Longrightarrow> \<not> py_bool rt (subtitle_file b) \<Longrightarrow>
     add_captions rt b parts label = (parts, label)"
  by (simp add: add_captions_def)

lemma add_captions_file:
  "has_captions b \<Longrightarrow> py_bool rt (subtitle_file b) \<Longrightarrow>
     add_captions rt b parts label =
       (parts @ [label @ ''subtitles='' @ py_str rt (subtitle_file b) @ ''[v]''], ''[v]'')"
  by (simp add: add_captions_def)

lemma add_captions_not_Nil: "parts \<noteq> [] \<Longrightarrow> fst (add_captions rt b parts label) \<noteq> []"
  by (simp add: add_captions_def)

lemma finish_command_eq:
  "finish_command rt b d cmd parts =
     cmd @ audio_input b
     @ (if fst (add_captions rt b parts ''[bg]'') \<noteq> []
        then [''-filter_complex'', join '';'' (fst (add_captions rt b parts ''[bg]''))] else [])
     @ [''-map'', snd (add_captions rt b parts ''[bg]'')]
     @ (if has_audio b then [''-map'', ''1:a''] else [])
     @ [''-c:v'', ''libx264'', ''-preset'', ''ultrafast'', ''-crf'', ''23'', ''-pix_fmt'',
        ''yuv420p'']
     @ audio_codec rt b d @ [output_path b]"
  by (simp add: finish_command_def Let_def str_nat_Suc_0 split: prod.splits)

lemma error_distinct:
  "no_audio_duration \<noteq> no_media_manager"
  "no_audio_duration \<noteq> no_background" "no_audio_duration \<noteq> no_audio_no_captions"
  "no_audio_duration \<noteq> image_without_audio"
  "no_audio_duration \<noteq> video_without_audio_or_captions"
  "no_media_manager \<noteq> no_background" "no_media_manager \<noteq> no_audio_no_captions"
  "no_media_manager \<noteq> image_without_audio"
  "no_media_manager \<noteq> video_without_audio_or_captions"
  by (simp_all add: no_audio_duration_def no_media_manager_def no_background_def
      no_audio_no_captions_def image_without_audio_def video_without_audio_or_captions_def)

lemma build_command_valid:
  assumes "background b = Some bg" "has_audio b \<or> has_captions b"
      "is_image bg \<longrightarrow> has_audio b"
  shows "build_command rt b =
     (case audio_duration rt b of
        Inl e \<Rightarrow> Inl e
      | Inr d \<Rightarrow>
          (case add_background rt b bg d 0 of
             Inl e \<Rightarrow> Inl e
           | Inr (bg_input, bg_filter) \<Rightarrow>
               Inr (finish_command rt b d ([ffmpeg_path b, ''-y''] @ bg_input) bg_filter)))"
  using assms by (auto simp: build_command_def has_captions_def)

lemma build_command_failed_rule:
  "failed_rule b = Some e \<Longrightarrow> build_command rt b = Inl e"
  by (auto simp: failed_rule_def build_command_def background_is_image_def
      split: if_splits option.splits)

lemma not_invalid_configuration:
  "\<not> invalid_configuration no_media_manager" "\<not> invalid_configuration no_audio_duration"
  "\<not> invalid_configuration (Propagated x)"
  by (simp_all add: invalid_configuration_def error_distinct)
     (simp add: no_background_def no_audio_no_captions_def image_without_audio_def
        video_without_audio_or_captions_def)

lemma build_command_passed_rules:
  assumes "failed_rule b = None" "build_command rt b = Inl e"
  shows "\<not> invalid_configuration e"
proof -
  from assms(1) obtain bg where bg: "background b = Some bg"
    and ac: "has_audio b \<or> has_captions b" and im: "is_image bg \<longrightarrow> has_audio b"
    by (auto simp: failed_rule_def background_is_image_def split: if_splits)
  note eq = build_command_valid [OF bg ac im, of rt]
  show ?thesis
  proof (cases "audio_duration rt b")
    case (Inl e')
    with eq assms(2) have "e' = e" by simp
    with audio_duration_Inl [OF Inl] show ?thesis
      by (auto simp: not_invalid_configuration)
  next
    case (Inr d)
    show ?thesis
    proof (cases "add_background rt b bg d 0")
      case (Inl e')
      with eq Inr assms(2) have "e' = e" by simp
      with add_background_Inl [OF Inl] show ?thesis
        by (auto simp: not_invalid_configuration)
    next
      case r: (Inr p)
      with eq Inr assms(2) show ?thesis by (cases p) simp
    qed
  qed
qed


section \<open>Validation\<close>

text \<open>
  Claim C1. \<^verbatim>\<open>build_command\<close> raises one of the validation errors exactly when a
  validation rule fails, and the error is that of the first rule that fails, in the
  order: the background is unset; the audio file and the caption record are both unset;
  the background is an image and the audio file is unset. So an image background without
  audio fails whether or not captions are set, and a video background without audio and
  without captions fails. A failing call returns no command (the result is \<open>Inl\<close>).
\<close>

theorem build_command_invalid_configuration:
  "(\<forall>e. failed_rule b = Some e \<longrightarrow> build_command rt b = Inl e)
   \<and> ((\<exists>e. invalid_configuration e \<and> build_command rt b = Inl e) \<longleftrightarrow> failed_rule b \<noteq> None)
   \<and> (background_is_image b \<and> \<not> has_audio b \<longrightarrow>
        (\<exists>e. invalid_configuration e \<and> build_command rt b = Inl e))
   \<and> (background_is_video b \<and> \<not> has_audio b \<and> \<not> has_captions b \<longrightarrow>
        build_command rt b = Inl no_audio_no_captions)"
proof -
  have rule: "\<forall>e. failed_rule b = Some e \<longrightarrow> build_command rt b = Inl e"
    by (simp add: build_command_failed_rule)
  have inv: "failed_rule b = Some e \<Longrightarrow> invalid_configuration e" for e
    by (auto simp: failed_rule_def invalid_configuration_def split: if_splits)
  have iff: "(\<exists>e. invalid_configuration e \<and> build_command rt b = Inl e) \<longleftrightarrow> failed_rule b \<noteq> None"
  proof
    assume "\<exists>e. invalid_configuration e \<and> build_command rt b = Inl e"
    then show "failed_rule b \<noteq> None"
      using build_command_passed_rules [of b rt] by blast
  next
    assume "failed_rule b \<noteq> None"
    then obtain e where "failed_rule b = Some e" by blast
    then show "\<exists>e. invalid_configuration e \<and> build_command rt b = Inl e"
      using inv rule by blast
  qed
  have image: "failed_rule b \<noteq> None" if "background_is_image b" "\<not> has_audio b"
    using that by (auto simp: failed_rule_def)
  have video: "failed_rule b = Some no_audio_no_captions"
    if "background_is_video b" "\<not> has_audio b" "\<not> has_captions b"
    using that by (auto simp: failed_rule_def background_is_video_def split: option.splits)
  from rule iff image video show ?thesis by blast
qed

theorem build_command_invalid_configuration_witness:
  "failed_rule (set_audio ''voice.mp3'' new_builder) = Some no_background
   \<and> build_command nan_runtime (set_audio ''voice.mp3'' new_builder) = Inl no_background
   \<and> background_is_video (set_background_video ''clip.mp4'' new_builder)
   \<and> \<not> has_audio (set_background_video ''clip.mp4'' new_builder)
   \<and> \<not> has_captions (set_background_video ''clip.mp4'' new_builder)
   \<and> build_command nan_runtime (set_background_video ''clip.mp4'' new_builder)
       = Inl no_audio_no_captions
   \<and> background_is_image (set_captions (Some ''subs.srt'') None
         (set_background_image ''bg.jpg'' None new_builder))
   \<and> \<not> has_audio (set_captions (Some ''subs.srt'') None
         (set_background_image ''bg.jpg'' None new_builder))
   \<and> build_command nan_runtime
         (set_captions (Some ''subs.srt'') None
           (set_background_image ''bg.jpg'' None new_builder))
       = Inl image_without_audio
   \<and> failed_rule (set_captions (Some ''subs.srt'') None
         (set_background_video ''clip.mp4'' new_builder)) = None
   \<and> \<not> (\<exists>e. invalid_configuration e \<and>
         build_command nan_runtime
           (set_captions (Some ''subs.srt'') None
             (set_background_video ''clip.mp4'' new_builder)) = Inl e)"
  using build_command_invalid_configuration [of "set_audio ''voice.mp3'' new_builder" nan_runtime]
    build_command_invalid_configuration [of "set_background_video ''clip.mp4'' new_builder" nan_runtime]
    build_command_invalid_configuration
      [of "set_captions (Some ''subs.srt'') None (set_background_image ''bg.jpg'' None new_builder)"
          nan_runtime]
    build_command_invalid_configuration
      [of "set_captions (Some ''subs.srt'') None (set_background_video ''clip.mp4'' new_builder)"
          nan_runtime]
  by (simp add: failed_rule_def new_builder_def set_audio_def set_background_video_def
      set_background_image_def set_captions_def or_empty_def has_audio_def has_captions_def
      background_is_image_def background_is_video_def is_image_def is_video_def)

section \<open>The constructor\<close>

text \<open>
  Claim C2, as the code has it. The constructor raises its \<^verbatim>\<open>ValueError\<close> for every
  argument that is not a tuple (a list, or any other value) and for every tuple whose
  length is not 2, and for nothing else: a tuple of two items is accepted whatever the
  items are, and they become the width and the height.
\<close>

theorem init_accepts_any_pair:
  "init (PyScalar v) ffmpeg = Inl dimensions_error
   \<and> init (PyList items) ffmpeg = Inl dimensions_error
   \<and> (init (PyTuple items) ffmpeg = Inl dimensions_error) = (length items \<noteq> 2)
   \<and> init (PyTuple [w, h]) ffmpeg =
       Inr \<lparr> width = w, height = h, ffmpeg_path = ffmpeg, background = None,
             audio_file = None, captions = None, output_path = ''output.mp4'',
             media_utils = None \<rparr>"
  by (simp add: init_def)

text \<open>
  Claim C2 as stated fails: the pair \<^verbatim>\<open>(0, -5)\<close>, with a zero and a negative component,
  constructs a builder of width 0 and height -5.
\<close>

theorem init_nonpositive_counterexample:
  "init (PyTuple [PyNum (PyInt 0), PyNum (PyInt (- 5))]) ''ffmpeg'' =
     Inr (new_builder\<lparr>width := PyNum (PyInt 0), height := PyNum (PyInt (- 5))\<rparr>)"
  by (simp add: init_def new_builder_def)

section \<open>The duration of the audio file\<close>

text \<open>
  Claim C3 as stated fails: with an audio file set, no inspector attached and no
  background, the first validation check raises before the inspector is looked at.
\<close>

theorem missing_inspector_counterexample:
  "audio_file (set_audio ''voice.mp3'' new_builder) = Some ''voice.mp3''
   \<and> media_utils (set_audio ''voice.mp3'' new_builder) = None
   \<and> build_command nan_runtime (set_audio ''voice.mp3'' new_builder)
       = Inl (ValueError ''Background must be set (image or video).'')
   \<and> build_command nan_runtime (set_audio ''voice.mp3'' new_builder) \<noteq> Inl no_media_manager"
  by (simp add: build_command_def set_audio_def new_builder_def no_background_def
      no_media_manager_def)

text \<open>
  Claim C3, as the code has it. With a background set and an audio file set (a
  non-empty path): without an inspector \<^verbatim>\<open>build_command\<close> raises the \<^verbatim>\<open>ValueError\<close> of
  line 100; with an inspector that reports no duration (no entry, or \<^verbatim>\<open>None\<close>) or a
  duration that is zero, it raises the \<^verbatim>\<open>ValueError\<close> of line 106; with an inspector
  that reports any other duration, the duration is kept and no \<^verbatim>\<open>raise\<close> statement of
  \<^verbatim>\<open>build_command\<close> is reached. The two errors differ from each other and from the
  validation errors (by their messages: all of them are \<^verbatim>\<open>ValueError\<close>s).
\<close>

theorem audio_duration_errors:
  assumes "background b = Some bg" "audio_file b = Some a" "a \<noteq> []"
  shows "(media_utils b = None \<longrightarrow> build_command rt b = Inl no_media_manager)
     \<and> (\<forall>mu info. media_utils b = Some mu \<and> get_audio_info mu a = Inr info
            \<and> \<not> dur_bool rt (reported_duration info) \<longrightarrow>
          build_command rt b = Inl no_audio_duration)
     \<and> (\<forall>mu info. media_utils b = Some mu \<and> get_audio_info mu a = Inr info
            \<and> dur_bool rt (reported_duration info) \<longrightarrow>
          audio_duration rt b = Inr (reported_duration info)
          \<and> (\<forall>m. build_command rt b \<noteq> Inl (ValueError m)))
     \<and> dur_bool rt None = False
     \<and> (\<forall>k. dur_bool rt (Some (PyInt k)) = (k \<noteq> 0))
     \<and> (\<forall>x. dur_bool rt (Some (PyFloat x)) = float_bool rt x)
     \<and> no_audio_duration \<noteq> no_media_manager
     \<and> \<not> invalid_configuration no_audio_duration
     \<and> \<not> invalid_configuration no_media_manager"
proof -
  from assms have audio: "has_audio b" by (simp add: has_audio_def)
  have eq: "build_command rt b =
     (case audio_duration rt b of
        Inl e \<Rightarrow> Inl e
      | Inr d \<Rightarrow>
          (case add_background rt b bg d 0 of
             Inl e \<Rightarrow> Inl e
           | Inr (bg_input, bg_filter) \<Rightarrow>
               Inr (finish_command rt b d ([ffmpeg_path b, ''-y''] @ bg_input) bg_filter)))"
    using assms(1) audio by (intro build_command_valid) simp_all
  have none: "build_command rt b = Inl no_media_manager" if "media_utils b = None"
    using audio_duration_no_inspector [OF assms(2,3) that, of rt] eq by simp
  have absent: "build_command rt b = Inl no_audio_duration"
    if "media_utils b = Some mu" "get_audio_info mu a = Inr info"
      "\<not> dur_bool rt (reported_duration info)" for mu info
    using audio_duration_reported [OF assms(2,3) that(1,2), of rt] that(3) eq by simp
  have known: "audio_duration rt b = Inr (reported_duration info)
      \<and> (\<forall>m. build_command rt b \<noteq> Inl (ValueError m))"
    if "media_utils b = Some mu" "get_audio_info mu a = Inr info"
      "dur_bool rt (reported_duration info)" for mu info
  proof -
    have d: "audio_duration rt b = Inr (reported_duration info)"
      using audio_duration_reported [OF assms(2,3) that(1,2), of rt] that(3) by simp
    have "build_command rt b \<noteq> Inl (ValueError m)" for m
    proof (cases "add_background rt b bg (reported_duration info) 0")
      case (Inl e)
      with add_background_Inl [OF Inl] eq d show ?thesis by auto
    next
      case (Inr p)
      with eq d show ?thesis by (cases p) simp
    qed
    with d show ?thesis by simp
  qed
  have bools: "dur_bool rt None = False" "\<forall>k. dur_bool rt (Some (PyInt k)) = (k \<noteq> 0)"
    "\<forall>x. dur_bool rt (Some (PyFloat x)) = float_bool rt x"
    by (simp_all add: dur_bool_def)
  from none absent known bools show ?thesis
    by (simp add: error_distinct not_invalid_configuration)
qed

theorem audio_duration_errors_witness:
  "build_command nan_runtime
       (set_audio ''voice.mp3'' (set_background_video ''clip.mp4'' new_builder))
     = Inl no_media_manager
   \<and> build_command nan_runtime
       (set_media_utils inspector_silent
          (set_audio ''voice.mp3'' (set_background_video ''clip.mp4'' new_builder)))
     = Inl no_audio_duration
   \<and> audio_duration nan_runtime
       (set_media_utils inspector_10
          (set_audio ''voice.mp3'' (set_background_video ''clip.mp4'' new_builder)))
     = Inr (Some (PyInt 10))
   \<and> \<not> (\<exists>m. build_command nan_runtime
       (set_media_utils inspector_10
          (set_audio ''voice.mp3'' (set_background_video ''clip.mp4'' new_builder)))
     = Inl (ValueError m))"
  using
    audio_duration_errors
      [of "set_audio ''voice.mp3'' (set_background_video ''clip.mp4'' new_builder)"
          "VideoBackground ''clip.mp4''" "''voice.mp3''" nan_runtime]
    audio_duration_errors
      [of "set_media_utils inspector_silent
             (set_audio ''voice.mp3'' (set_background_video ''clip.mp4'' new_builder))"
          "VideoBackground ''clip.mp4''" "''voice.mp3''" nan_runtime]
    audio_duration_errors
      [of "set_media_utils inspector_10
             (set_audio ''voice.mp3'' (set_background_video ''clip.mp4'' new_builder))"
          "VideoBackground ''clip.mp4''" "''voice.mp3''" nan_runtime]
  by (simp add: set_media_utils_def set_audio_def set_background_video_def new_builder_def
      inspector_silent_def inspector_10_def reported_duration_def dur_bool_def)

section \<open>The assembled command\<close>

lemma has_audio_audio_input:
  "audio_file b = Some a \<Longrightarrow> a \<noteq> [] \<Longrightarrow> has_audio b \<and> audio_input b = [''-i'', a]"
  by (simp add: has_audio_def audio_input_def)

lemma no_audio_input: "\<not> has_audio b \<Longrightarrow> audio_input b = []"
  by (simp add: has_audio_def audio_input_def split: option.splits)

lemma build_command_image:
  assumes "background b = Some (ImageBackground file kb)" "has_audio b"
    "audio_duration rt b = Inr d" "duration_frames rt d = Inr n"
  shows "build_command rt b =
     Inr (finish_command rt b d
            [ffmpeg_path b, ''-y'', ''-loop'', ''1'', ''-t'', dur_str rt d, ''-i'', file]
            [image_filter rt b 0
               (''z='' @ [quote] @ ''zoom+'' @ zoom_factor_text rt kb @ [quote] @ '':x=0:y=0'')
               (n + 1)])"
  using assms by (simp add: build_command_valid [OF assms(1)] add_background_image)

lemma build_command_video:
  assumes "background b = Some (VideoBackground file)" "has_audio b \<or> has_captions b"
    "audio_duration rt b = Inr d"
  shows "build_command rt b =
     Inr (finish_command rt b d
            ([ffmpeg_path b, ''-y'']
               @ (if dur_bool rt d
                  then [''-stream_loop'', ''-1'', ''-t'', dur_str rt d, ''-i'', file]
                  else [''-i'', file]))
            [video_filter rt b 0])"
  using assms
  by (simp add: build_command_valid [OF assms(1)] add_background_video is_image_def)

lemma image_command:
  assumes "background b = Some (ImageBackground file kb)"
    and "audio_file b = Some a" and "a \<noteq> []"
    and "media_utils b = Some mu" and "get_audio_info mu a = Inr info"
    and "reported_duration info = Some d" and "num_bool rt d"
    and "num_int rt (num_mul rt d 25) = Inr n"
  shows "build_command rt b =
      Inr [ffmpeg_path b, ''-y'', ''-loop'', ''1'', ''-t'', num_str rt d, ''-i'', file,
           ''-i'', a,
           ''-filter_complex'',
           join '';'' (fst (add_captions rt b
             [''[0]scale='' @ py_str rt (width b) @ '':-2,setsar=1:1,crop=''
                @ py_str rt (width b) @ '':'' @ py_str rt (height b)
                @ '',zoompan=z='' @ [quote] @ ''zoom+'' @ zoom_factor_text rt kb @ [quote]
                @ '':x=0:y=0:d='' @ str_int (n + 1)
                @ '':s='' @ py_str rt (width b) @ ''x'' @ py_str rt (height b)
                @ '':fps=25[bg]''] ''[bg]'')),
           ''-map'',
           snd (add_captions rt b
             [''[0]scale='' @ py_str rt (width b) @ '':-2,setsar=1:1,crop=''
                @ py_str rt (width b) @ '':'' @ py_str rt (height b)
                @ '',zoompan=z='' @ [quote] @ ''zoom+'' @ zoom_factor_text rt kb @ [quote]
                @ '':x=0:y=0:d='' @ str_int (n + 1)
                @ '':s='' @ py_str rt (width b) @ ''x'' @ py_str rt (height b)
                @ '':fps=25[bg]''] ''[bg]''),
           ''-map'', ''1:a'',
           ''-c:v'', ''libx264'', ''-preset'', ''ultrafast'', ''-crf'', ''23'', ''-pix_fmt'',
           ''yuv420p'',
           ''-c:a'', ''aac'', ''-b:a'', ''192k'', ''-t'', num_str rt d,
           output_path b]
    \<and> (\<forall>k. d = PyInt k \<longrightarrow> n = 25 * k)"
proof -
  have audio: "has_audio b" "audio_input b = [''-i'', a]"
    using has_audio_audio_input [OF assms(2,3)] by simp_all
  have d: "audio_duration rt b = Inr (Some d)"
    using audio_duration_reported [OF assms(2,3,4,5), of rt] assms(6,7)
    by (simp add: dur_bool_def)
  have n: "duration_frames rt (Some d) = Inr n"
    using assms(8) by (simp add: duration_frames_def fps_def)
  have stage: "image_filter rt b 0 ze (n + 1) =
      ''[0]scale='' @ py_str rt (width b) @ '':-2,setsar=1:1,crop=''
        @ py_str rt (width b) @ '':'' @ py_str rt (height b)
        @ '',zoompan='' @ ze @ '':d='' @ str_int (n + 1)
        @ '':s='' @ py_str rt (width b) @ ''x'' @ py_str rt (height b)
        @ '':fps=25[bg]''" for ze
    by (simp add: image_filter_def str_nat_0 str_int_fps)
  have codec: "audio_codec rt b (Some d) = [''-c:a'', ''aac'', ''-b:a'', ''192k'', ''-t'', num_str rt d]"
    using audio(1) assms(7) by (simp add: audio_codec_def dur_bool_def dur_str_def)
  have int: "\<forall>k. d = PyInt k \<longrightarrow> n = 25 * k"
    using assms(8) by auto
  show ?thesis
    unfolding build_command_image [OF assms(1) audio(1) d n] finish_command_eq
    using int by (simp add: audio codec stage add_captions_not_Nil dur_str_def)
qed

subsection \<open>Rounding to the nearest double\<close>

text \<open>
  The product of two Python floats is the exact product of the two doubles, rounded by
  \<^verbatim>\<open>double_round\<close>.  The lemmas of this subsection show that the rounding is the one of
  IEEE 754 binary64: a finite result has a mantissa below \<open>2\<^sup>5\<^sup>3\<close> and an exponent between
  \<open>-1074\<close> and \<open>971\<close>, and it differs from the exact value by at most half a unit of
  its last place.
\<close>

lemma bit_length_upper: "m < 2 ^ bit_length m"
proof (induction m rule: bit_length.induct)
  case (1 n)
  show ?case
  proof (cases "n = 0")
    case True
    then show ?thesis by (simp add: bit_length.simps)
  next
    case False
    with 1 have "n div 2 < 2 ^ bit_length (n div 2)" by simp
    then have "n < 2 * 2 ^ bit_length (n div 2)" by linarith
    with False show ?thesis by (simp add: bit_length.simps [of n])
  qed
qed

lemma round_half_even_near:
  "2 * \<bar>int (round_half_even m k) * 2 ^ k - int m\<bar> \<le> 2 ^ k"
proof -
  define q r where "q = m div 2 ^ k" and "r = m mod 2 ^ k"
  have m: "int m = int q * 2 ^ k + int r"
  proof -
    have "m = q * 2 ^ k + r" unfolding q_def r_def by (rule div_mult_mod_eq [symmetric])
    then have "int m = int (q * 2 ^ k + r)" by simp
    then show ?thesis by simp
  qed
  have r: "int r < 2 ^ k"
  proof -
    have "r < 2 ^ k" unfolding r_def by simp
    then have "int r < int (2 ^ k)" by (simp only: of_nat_less_iff)
    then show ?thesis by simp
  qed
  show ?thesis
  proof (cases "2 ^ k < 2 * r \<or> (2 * r = 2 ^ k \<and> odd q)")
    case True
    then have up: "round_half_even m k = q + 1"
      by (simp add: round_half_even_def q_def r_def Let_def)
    from True have "2 ^ k \<le> 2 * r" by auto
    then have "int (2 ^ k) \<le> int (2 * r)" by (simp only: of_nat_le_iff)
    then have "(2::int) ^ k \<le> 2 * int r" by simp
    then have "2 * \<bar>2 ^ k - int r\<bar> \<le> (2::int) ^ k"
      using r by (simp add: abs_if)
    moreover have "int (q + 1) * 2 ^ k - (int q * 2 ^ k + int r) = 2 ^ k - int r"
      by (simp add: distrib_right)
    ultimately show ?thesis
      unfolding up m by (simp only:)
  next
    case False
    then have down: "round_half_even m k = q"
      by (simp add: round_half_even_def q_def r_def Let_def)
    from False have "2 * r \<le> 2 ^ k" by auto
    then have "int (2 * r) \<le> int (2 ^ k)" by (simp only: of_nat_le_iff)
    then have "2 * int r \<le> 2 ^ k" by simp
    moreover have "int q * 2 ^ k - (int q * 2 ^ k + int r) = - int r"
      by simp
    ultimately show ?thesis
      unfolding down m by (simp only: abs_minus_cancel abs_of_nat)
  qed
qed

lemma double_val_powi: "double_val (Finite False m e) = real m * 2 powi e"
proof (cases "0 \<le> e")
  case True
  then show ?thesis by (simp add: power_int_def)
next
  case False
  have "inverse (2::real) ^ nat (- e) = 1 / 2 ^ nat (- e)"
    by (simp add: power_one_over inverse_eq_divide)
  with False show ?thesis by (simp add: power_int_def)
qed

lemma powi_shift: "c \<le> e \<Longrightarrow> real (m * 2 ^ nat (e - c)) * 2 powi c = real m * 2 powi e"
proof -
  assume "c \<le> e"
  then have "(2::real) powi (e - c) = 2 ^ nat (e - c)"
    by (simp add: power_int_def)
  moreover have "(2::real) powi (e - c + c) = 2 powi (e - c) * 2 powi c"
    by (rule power_int_add) simp
  ultimately show ?thesis by simp
qed

lemma double_round_nearest:
  assumes "double_round False m e = Finite False m' e'"
  shows "\<bar>real m' * 2 powi e' - real m * 2 powi e\<bar> \<le> 2 powi e' / 2"
proof -
  define t where "t = max (e + int (bit_length m) - 53) (- 1074)"
  define k where "k = nat (t - e)"
  define q where "q = round_half_even m k"
  define c :: int where "c = 971"
  define b :: nat where "b = 2 ^ 53"
  define h :: nat where "h = 2 ^ 52"
  have bh: "real b = 2 * real h" by (simp add: b_def h_def)
  have dr: "double_round False m e =
     (if t \<le> e then
           (if e \<le> c then Finite False m e
            else if m * 2 ^ nat (e - c) < b then Finite False (m * 2 ^ nat (e - c)) c
            else Infinity False)
         else
           (if q = b
               then (if c < t + 1 then Infinity False else Finite False h (t + 1))
               else if c < t then Infinity False else Finite False q t))"
    unfolding double_round_def Let_def t_def k_def q_def c_def b_def h_def by (rule refl)
  note res = assms [unfolded dr]
  show ?thesis
  proof (cases "t \<le> e")
    case True
    show ?thesis
    proof (cases "e \<le> c")
      case e: True
      with True res have "m' = m" "e' = e" by simp_all
      then show ?thesis by simp
    next
      case e: False
      with True res have m': "m' = m * 2 ^ nat (e - c)" and e': "e' = c"
        by (auto split: if_splits)
      have "real m' * 2 powi e' = real m * 2 powi e"
        unfolding m' e' using e by (intro powi_shift) simp
      then show ?thesis by simp
    qed
  next
    case False
    have te: "t = e + int k" using False by (simp add: k_def)
    have pt: "(2::real) powi t = 2 powi e * 2 ^ k"
      unfolding te by (subst power_int_add) simp_all
    have "2 * \<bar>int q * 2 ^ k - int m\<bar> \<le> 2 ^ k"
      unfolding q_def by (rule round_half_even_near)
    then have "real_of_int (2 * \<bar>int q * 2 ^ k - int m\<bar>) \<le> real_of_int (2 ^ k)"
      by (simp only: of_int_le_iff)
    then have near: "\<bar>real q * 2 ^ k - real m\<bar> \<le> 2 ^ k / 2"
      by simp
    have "real q * 2 powi t - real m * 2 powi e = 2 powi e * (real q * 2 ^ k - real m)"
      by (simp add: pt algebra_simps)
    then have "\<bar>real q * 2 powi t - real m * 2 powi e\<bar>
        = 2 powi e * \<bar>real q * 2 ^ k - real m\<bar>"
      by (simp only: abs_mult) simp
    also have "\<dots> \<le> 2 powi e * (2 ^ k / 2)"
      using near by (intro mult_left_mono) simp_all
    also have "\<dots> = 2 powi t / 2"
      by (simp add: pt)
    finally have bound: "\<bar>real q * 2 powi t - real m * 2 powi e\<bar> \<le> 2 powi t / 2" .
    have p1: "(2::real) powi (t + 1) = 2 powi t * 2"
      by (subst power_int_add) simp_all
    show ?thesis
    proof (cases "q = b")
      case q: True
      with False res have m': "m' = h" and e': "e' = t + 1"
        by (simp_all split: if_splits)
      have "real m' * 2 powi e' = real q * 2 powi t"
        unfolding m' e' q p1 bh by simp
      moreover have "(2::real) powi t / 2 \<le> 2 powi e' / 2"
        unfolding e' p1 by simp
      ultimately show ?thesis using bound by simp
    next
      case q: False
      with False res have "m' = q" "e' = t"
        by (simp_all split: if_splits)
      with bound show ?thesis by simp
    qed
  qed
qed

lemma round_half_even_le: "round_half_even m k \<le> m div 2 ^ k + 1"
  by (simp add: round_half_even_def Let_def)

lemma double_round_representable:
  assumes "double_round s m e = Finite s' m' e'"
  shows "m' < 2 ^ 53 \<and> - 1074 \<le> e' \<and> e' \<le> 971"
proof -
  define t where "t = max (e + int (bit_length m) - 53) (- 1074)"
  define k where "k = nat (t - e)"
  define q where "q = round_half_even m k"
  define c :: int where "c = 971"
  define b :: nat where "b = 2 ^ 53"
  define h :: nat where "h = 2 ^ 52"
  have hb: "h < b" by (simp add: b_def h_def)
  have dr: "double_round s m e =
     (if t \<le> e then
           (if e \<le> c then Finite s m e
            else if m * 2 ^ nat (e - c) < b then Finite s (m * 2 ^ nat (e - c)) c
            else Infinity s)
         else
           (if q = b
               then (if c < t + 1 then Infinity s else Finite s h (t + 1))
               else if c < t then Infinity s else Finite s q t))"
    unfolding double_round_def Let_def t_def k_def q_def c_def b_def h_def by (rule refl)
  note res = assms [unfolded dr]
  have t: "- 1074 \<le> t" by (simp add: t_def)
  have goal: "m' < b \<and> - 1074 \<le> e' \<and> e' \<le> c"
  proof (cases "t \<le> e")
    case True
    then have "int (bit_length m) \<le> 53" by (simp add: t_def)
    then have "bit_length m \<le> 53" by simp
    then have "(2::nat) ^ bit_length m \<le> 2 ^ 53" by (intro power_increasing) simp_all
    with bit_length_upper [of m] have m: "m < b" unfolding b_def by (rule less_le_trans)
    show ?thesis
    proof (cases "e \<le> c")
      case e: True
      with True res have "m' = m" "e' = e" by simp_all
      with m e True t show ?thesis by simp
    next
      case e: False
      with True res have "m' < b" "e' = c"
        by (auto split: if_splits)
      then show ?thesis by (simp add: c_def)
    qed
  next
    case False
    show ?thesis
    proof (cases "q = b")
      case q: True
      with False res have "m' = h" "e' = t + 1" "\<not> c < t + 1"
        by (simp_all split: if_splits)
      with hb t show ?thesis by simp
    next
      case q: False
      with False res have r: "m' = q" "e' = t" "\<not> c < t"
        by (simp_all split: if_splits)
      have "e + int (bit_length m) - 53 \<le> t" by (simp add: t_def)
      then have "bit_length m \<le> 53 + k" using False by (simp add: k_def)
      then have "(2::nat) ^ bit_length m \<le> 2 ^ (53 + k)" by (intro power_increasing) simp_all
      with bit_length_upper [of m] have "m < 2 ^ (53 + k)" by (rule less_le_trans)
      then have "m < b * 2 ^ k" by (simp only: power_add b_def)
      then have "m div 2 ^ k < b" by (rule less_mult_imp_div_less)
      with round_half_even_le [of m k] have "q \<le> b" unfolding q_def by linarith
      with q have "q < b" by simp
      with r t show ?thesis by simp
    qed
  qed
  then show ?thesis unfolding b_def c_def .
qed

lemma double_mul_nearest:
  assumes "double_mul (Finite False m e) (Finite False n f) = Finite False m' e'"
  shows "\<bar>double_val (Finite False m' e')
           - double_val (Finite False m e) * double_val (Finite False n f)\<bar> \<le> 2 powi e' / 2"
    and "m' < 2 ^ 53" and "- 1074 \<le> e'" and "e' \<le> 971"
proof -
  from assms have r: "double_round False (m * n) (e + f) = Finite False m' e'" by simp
  have "(2::real) powi (e + f) = 2 powi e * 2 powi f"
    by (rule power_int_add) simp
  then have "real (m * n) * 2 powi (e + f) = (real m * 2 powi e) * (real n * 2 powi f)"
    by simp
  with double_round_nearest [OF r]
  show "\<bar>double_val (Finite False m' e')
           - double_val (Finite False m e) * double_val (Finite False n f)\<bar> \<le> 2 powi e' / 2"
    by (simp only: double_val_powi)
  from double_round_representable [OF r]
  show "m' < 2 ^ 53" and "- 1074 \<le> e'" and "e' \<le> 971" by simp_all
qed


subsection \<open>Frames of a float duration\<close>

lemma double_round_sign:
  "(\<exists>m' e'. double_round s m e = Finite s m' e') \<or> double_round s m e = Infinity s"
  by (simp add: double_round_def Let_def)

lemma double_of_int_25: "double_of_int 25 = Finite False 25 0"
  by (simp add: double_of_int_def double_round_def bit_length.simps)

lemma double_int_floor:
  "double_int (Finite False m e) = Inr \<lfloor>double_val (Finite False m e)\<rfloor>"
proof (cases "0 \<le> e")
  case True
  have "real m * 2 ^ nat e = real_of_int (int m * 2 ^ nat e)" by simp
  then have "\<lfloor>real m * 2 ^ nat e\<rfloor> = int m * 2 ^ nat e"
    by (simp only: floor_of_int)
  with True show ?thesis by simp
next
  case False
  have "real m / 2 ^ nat (- e) = real_of_int (int m) / real_of_int (2 ^ nat (- e))"
    by simp
  then have "\<lfloor>real m / 2 ^ nat (- e)\<rfloor> = int m div 2 ^ nat (- e)"
    by (simp only: floor_divide_of_int_eq)
  with False show ?thesis by simp
qed

lemma positive_frames:
  assumes "num_positive d" and "num_finite (num_mul (double_runtime fmt) d 25)"
  shows "num_bool (double_runtime fmt) d"
    and "num_int (double_runtime fmt) (num_mul (double_runtime fmt) d 25)
          = Inr \<lfloor>num_val (num_mul (double_runtime fmt) d 25)\<rfloor>"
proof -
  show "num_bool (double_runtime fmt) d"
  proof (cases d)
    case (PyInt k)
    with assms(1) show ?thesis by simp
  next
    case (PyFloat x)
    with assms(1) show ?thesis
      by (cases x) (simp_all add: double_runtime_def)
  qed
  show "num_int (double_runtime fmt) (num_mul (double_runtime fmt) d 25)
          = Inr \<lfloor>num_val (num_mul (double_runtime fmt) d 25)\<rfloor>"
  proof (cases d)
    case (PyInt k)
    have "real_of_int k * 25 = real_of_int (k * 25)" by simp
    then have "\<lfloor>real_of_int k * 25\<rfloor> = k * 25"
      by (simp only: floor_of_int)
    with PyInt show ?thesis by simp
  next
    case (PyFloat x)
    show ?thesis
    proof (cases x)
      case (Finite s m e)
      with PyFloat assms(1) have s: "\<not> s" by simp
      have prod: "float_mul (double_runtime fmt) x 25 = double_round False (m * 25) e"
        using Finite s by (simp add: double_runtime_def double_of_int_25)
      from double_round_sign [of False "m * 25" e] show ?thesis
      proof
        assume "\<exists>m' e'. double_round False (m * 25) e = Finite False m' e'"
        then obtain m' e' where "double_round False (m * 25) e = Finite False m' e'"
          by blast
        with prod PyFloat show ?thesis
          by (simp add: double_int_floor double_runtime_def del: double_int.simps
              double_val.simps)
      next
        assume "double_round False (m * 25) e = Infinity False"
        with prod PyFloat assms(2) show ?thesis by simp
      qed
    next
      case (Infinity s)
      with PyFloat assms(2) show ?thesis
        by (simp add: double_runtime_def double_of_int_25)
    next
      case NaN
      with PyFloat assms(1) show ?thesis by simp
    qed
  qed
qed

text \<open>
  Claim C4 as stated fails: the float \<open>2\<^sup>1\<^sup>0\<^sup>2\<^sup>3\<close> (mantissa \<open>2\<^sup>5\<^sup>2\<close>, exponent 971; Python
  prints it as \<^verbatim>\<open>8.98846567431158e+307\<close>) is a positive duration that passes the check of
  line 105, but its product with 25 is \<^verbatim>\<open>inf\<close>, so \<^verbatim>\<open>int\<close> raises at line 134 and no
  command is built.
\<close>

theorem image_duration_overflow_counterexample:
  "num_positive (PyFloat (Finite False 4503599627370496 971))
   \<and> build_command (double_runtime (\<lambda>x. ''8.98846567431158e+307''))
       (set_media_utils (inspector_float (Finite False 4503599627370496 971))
          (set_audio ''voice.mp3'' (set_background_image ''bg.jpg'' None float_builder)))
     = Inl (Propagated ''OverflowError: cannot convert float infinity to integer'')"
proof -
  let ?rt = "double_runtime (\<lambda>x. ''8.98846567431158e+307'')"
  let ?b = "set_media_utils (inspector_float (Finite False 4503599627370496 971))
          (set_audio ''voice.mp3'' (set_background_image ''bg.jpg'' None float_builder))"
  have prod: "double_mul (Finite False 4503599627370496 971) (double_of_int 25) = Infinity False"
    by (simp add: double_of_int_25 double_round_def bit_length.simps round_half_even_def
        Let_def)
  have frames: "duration_frames ?rt (Some (PyFloat (Finite False 4503599627370496 971)))
      = Inl (Propagated ''OverflowError: cannot convert float infinity to integer'')"
    using prod by (simp add: duration_frames_def fps_def double_runtime_def)
  have bg: "background ?b = Some (ImageBackground ''bg.jpg'' [])"
    by (simp add: set_media_utils_def set_audio_def set_background_image_def or_empty_def)
  have audio: "has_audio ?b"
    by (simp add: has_audio_def set_media_utils_def set_audio_def)
  have d: "audio_duration ?rt ?b = Inr (Some (PyFloat (Finite False 4503599627370496 971)))"
    by (simp add: audio_duration_def set_media_utils_def set_audio_def
        inspector_float_def reported_duration_def dur_bool_def double_runtime_def)
  have "build_command ?rt ?b
      = Inl (Propagated ''OverflowError: cannot convert float infinity to integer'')"
    using audio by (simp add: build_command_valid [OF bg] d add_background_image frames)
  then show ?thesis by simp
qed

text \<open>
  Claim C4, as the code has it. For an image background and an audio file whose
  reported duration \<open>d\<close> is positive, an int or a float, and whose product \<^verbatim>\<open>d * 25\<close> is
  finite: the image input is declared as \<^verbatim>\<open>-loop 1 -t str(d) -i file\<close>, the zoompan stage
  declares \<^verbatim>\<open>d=\<close> the floor of \<^verbatim>\<open>d * 25\<close> plus one, and the command ends with
  \<^verbatim>\<open>-t str(d)\<close> after the audio codec flags, before the output path. The product is
  Python's: exact for an int, and for a float the product of doubles with 25.0, rounded
  to the nearest double.
\<close>

theorem image_duration_flags:
  assumes "background b = Some (ImageBackground file kb)"
    and "audio_file b = Some a" and "a \<noteq> []"
    and "media_utils b = Some mu" and "get_audio_info mu a = Inr info"
    and "reported_duration info = Some d"
    and "num_positive d"
    and "num_finite (num_mul (double_runtime fmt) d 25)"
  shows "build_command (double_runtime fmt) b =
      Inr [ffmpeg_path b, ''-y'',
           ''-loop'', ''1'', ''-t'', num_str (double_runtime fmt) d, ''-i'', file,
           ''-i'', a,
           ''-filter_complex'',
           join '';'' (fst (add_captions (double_runtime fmt) b
             [''[0]scale='' @ py_str (double_runtime fmt) (width b) @ '':-2,setsar=1:1,crop=''
                @ py_str (double_runtime fmt) (width b) @ '':''
                @ py_str (double_runtime fmt) (height b)
                @ '',zoompan=z='' @ [quote] @ ''zoom+''
                @ zoom_factor_text (double_runtime fmt) kb @ [quote]
                @ '':x=0:y=0:d=''
                @ str_int (\<lfloor>num_val (num_mul (double_runtime fmt) d 25)\<rfloor> + 1)
                @ '':s='' @ py_str (double_runtime fmt) (width b) @ ''x''
                @ py_str (double_runtime fmt) (height b)
                @ '':fps=25[bg]''] ''[bg]'')),
           ''-map'',
           snd (add_captions (double_runtime fmt) b
             [''[0]scale='' @ py_str (double_runtime fmt) (width b) @ '':-2,setsar=1:1,crop=''
                @ py_str (double_runtime fmt) (width b) @ '':''
                @ py_str (double_runtime fmt) (height b)
                @ '',zoompan=z='' @ [quote] @ ''zoom+''
                @ zoom_factor_text (double_runtime fmt) kb @ [quote]
                @ '':x=0:y=0:d=''
                @ str_int (\<lfloor>num_val (num_mul (double_runtime fmt) d 25)\<rfloor> + 1)
                @ '':s='' @ py_str (double_runtime fmt) (width b) @ ''x''
                @ py_str (double_runtime fmt) (height b)
                @ '':fps=25[bg]''] ''[bg]''),
           ''-map'', ''1:a'',
           ''-c:v'', ''libx264'', ''-preset'', ''ultrafast'', ''-crf'', ''23'', ''-pix_fmt'',
           ''yuv420p'',
           ''-c:a'', ''aac'', ''-b:a'', ''192k'', ''-t'', num_str (double_runtime fmt) d,
           output_path b]
    \<and> (\<forall>k. d = PyInt k \<longrightarrow> num_mul (double_runtime fmt) d 25 = PyInt (k * 25))
    \<and> (\<forall>x. d = PyFloat x \<longrightarrow>
          num_mul (double_runtime fmt) d 25 = PyFloat (double_mul x (Finite False 25 0)))"
proof -
  note pf = positive_frames [OF assms(7,8)]
  have products:
    "\<forall>k. d = PyInt k \<longrightarrow> num_mul (double_runtime fmt) d 25 = PyInt (k * 25)"
    "\<forall>x. d = PyFloat x \<longrightarrow>
          num_mul (double_runtime fmt) d 25 = PyFloat (double_mul x (Finite False 25 0))"
    by (simp_all add: double_runtime_def double_of_int_25)
  from image_command [OF assms(1-6) pf] products show ?thesis
    by blast
qed

text \<open>
  The theorem at the durations 10.0 and 0.12. The double nearest to 0.12 is below
  0.12, and its product with 25 rounds to 3.0: the stage declares \<^verbatim>\<open>d=4\<close>, as
  \<^verbatim>\<open>int(0.12 * 25) + 1\<close> is in Python.
\<close>

theorem image_duration_flags_witness:
  "build_command (double_runtime (\<lambda>x. ''10.0''))
     (set_media_utils (inspector_float (Finite False 5 1))
        (set_audio ''voice.mp3'' (set_background_image ''bg.jpg'' None float_builder))) =
   Inr [''ffmpeg'', ''-y'', ''-loop'', ''1'', ''-t'', ''10.0'', ''-i'', ''bg.jpg'',
        ''-i'', ''voice.mp3'',
        ''-filter_complex'',
        ''[0]scale=1080:-2,setsar=1:1,crop=1080:1920,zoompan=z='' @ [quote] @ ''zoom+0.001''
          @ [quote] @ '':x=0:y=0:d=251:s=1080x1920:fps=25[bg];[bg]copy[v]'',
        ''-map'', ''[v]'', ''-map'', ''1:a'',
        ''-c:v'', ''libx264'', ''-preset'', ''ultrafast'', ''-crf'', ''23'', ''-pix_fmt'',
        ''yuv420p'',
        ''-c:a'', ''aac'', ''-b:a'', ''192k'', ''-t'', ''10.0'',
        ''output.mp4'']
   \<and> build_command (double_runtime (\<lambda>x. ''0.12''))
     (set_media_utils (inspector_float (Finite False 8646911284551352 (- 56)))
        (set_audio ''voice.mp3'' (set_background_image ''bg.jpg'' None float_builder))) =
   Inr [''ffmpeg'', ''-y'', ''-loop'', ''1'', ''-t'', ''0.12'', ''-i'', ''bg.jpg'',
        ''-i'', ''voice.mp3'',
        ''-filter_complex'',
        ''[0]scale=1080:-2,setsar=1:1,crop=1080:1920,zoompan=z='' @ [quote] @ ''zoom+0.001''
          @ [quote] @ '':x=0:y=0:d=4:s=1080x1920:fps=25[bg];[bg]copy[v]'',
        ''-map'', ''[v]'', ''-map'', ''1:a'',
        ''-c:v'', ''libx264'', ''-preset'', ''ultrafast'', ''-crf'', ''23'', ''-pix_fmt'',
        ''yuv420p'',
        ''-c:a'', ''aac'', ''-b:a'', ''192k'', ''-t'', ''0.12'',
        ''output.mp4'']"
proof -
  have general: "build_command (double_runtime fmt)
     (set_media_utils (inspector_float x)
        (set_audio ''voice.mp3'' (set_background_image ''bg.jpg'' None float_builder))) =
   Inr [''ffmpeg'', ''-y'', ''-loop'', ''1'', ''-t'', fmt x, ''-i'', ''bg.jpg'',
        ''-i'', ''voice.mp3'',
        ''-filter_complex'',
        ''[0]scale=1080:-2,setsar=1:1,crop=1080:1920,zoompan=z='' @ [quote] @ ''zoom+0.001''
          @ [quote] @ '':x=0:y=0:d='' @ str_int (\<lfloor>double_val y\<rfloor> + 1)
          @ '':s=1080x1920:fps=25[bg];[bg]copy[v]'',
        ''-map'', ''[v]'', ''-map'', ''1:a'',
        ''-c:v'', ''libx264'', ''-preset'', ''ultrafast'', ''-crf'', ''23'', ''-pix_fmt'',
        ''yuv420p'',
        ''-c:a'', ''aac'', ''-b:a'', ''192k'', ''-t'', fmt x,
        ''output.mp4'']"
    if pos: "num_positive (PyFloat x)"
      and prod: "double_mul x (double_of_int 25) = y" and fin: "num_finite (PyFloat y)"
    for fmt x y
  proof -
    let ?b = "set_media_utils (inspector_float x)
        (set_audio ''voice.mp3'' (set_background_image ''bg.jpg'' None float_builder))"
    have dims: "str_int 1080 = ''1080''" "str_int 1920 = ''1920''"
      by (simp_all add: str_int_def str_nat.simps digit_char_def)
    have fields: "background ?b = Some (ImageBackground ''bg.jpg'' [])"
      "audio_file ?b = Some ''voice.mp3''" "media_utils ?b = Some (inspector_float x)"
      "ffmpeg_path ?b = ''ffmpeg''" "output_path ?b = ''output.mp4''"
      "width ?b = PyNum (PyInt 1080)" "height ?b = PyNum (PyInt 1920)"
      by (simp_all add: set_media_utils_def set_audio_def set_background_image_def
          or_empty_def float_builder_def)
    have info: "get_audio_info (inspector_float x) ''voice.mp3''
        = Inr [(''duration'', Some (PyFloat x))]"
      "reported_duration [(''duration'', Some (PyFloat x))] = Some (PyFloat x)"
      by (simp_all add: inspector_float_def reported_duration_def)
    have mul: "num_mul (double_runtime fmt) (PyFloat x) 25 = PyFloat y"
      using prod by (simp add: double_runtime_def)
    have caps: "add_captions (double_runtime fmt) ?b parts ''[bg]''
        = (parts @ [''[bg]copy[v]''], ''[v]'')" for parts
      by (simp add: add_captions_def has_captions_def set_media_utils_def set_audio_def
          set_background_image_def float_builder_def)
    have mul': "float_mul (double_runtime fmt) x 25 = y" "double_mul x (Finite False 25 0) = y"
      using prod by (simp_all add: double_runtime_def double_of_int_25)
    have fin': "num_finite (num_mul (double_runtime fmt) (PyFloat x) 25)"
      using fin by (simp only: mul)
    have str: "num_str (double_runtime fmt) (PyFloat x) = fmt x"
      "num_str (double_runtime fmt) (PyInt 1080) = ''1080''"
      "num_str (double_runtime fmt) (PyInt 1920) = ''1920''"
      by (simp_all add: double_runtime_def dims)
    from image_duration_flags [OF fields(1) fields(2) _ fields(3) info(1) info(2) pos fin']
    show ?thesis
      by (simp add: fields caps mul' dims str zoom_factor_text_def
          del: double_val.simps num_str.simps)
  qed
  have ten: "double_mul (Finite False 5 1) (double_of_int 25) = Finite False 125 1"
    by (simp add: double_of_int_25 double_round_def bit_length.simps Let_def)
  have small: "double_mul (Finite False 8646911284551352 (- 56)) (double_of_int 25)
      = Finite False 6755399441055744 (- 51)"
    by (simp add: double_of_int_25 double_round_def bit_length.simps round_half_even_def
        Let_def)
  have frames: "str_int (\<lfloor>double_val (Finite False 125 1)\<rfloor> + 1) = ''251''"
    "str_int (\<lfloor>double_val (Finite False 6755399441055744 (- 51))\<rfloor> + 1) = ''4''"
    by (simp_all add: str_int_def str_nat.simps digit_char_def)
  from general [OF _ ten, of "\<lambda>x. ''10.0''"] general [OF _ small, of "\<lambda>x. ''0.12''"]
  show ?thesis
    by (simp add: frames del: double_val.simps)
qed

section \<open>The pan and zoom expression\<close>

lemma zoom_factor_text_direction:
  assumes "\<forall>k. k \<noteq> ''direction'' \<longrightarrow> map_of kb' k = map_of kb k"
  shows "zoom_factor_text rt kb' = zoom_factor_text rt kb"
proof -
  have "map_of kb' ''zoom_factor'' = map_of kb ''zoom_factor''"
    using assms by simp
  then show ?thesis by (simp add: zoom_factor_text_def)
qed

lemma background_update_frame:
  "has_audio (b\<lparr>background := x\<rparr>) = has_audio b"
  "has_captions (b\<lparr>background := x\<rparr>) = has_captions b"
  "audio_duration rt (b\<lparr>background := x\<rparr>) = audio_duration rt b"
  "image_filter rt (b\<lparr>background := x\<rparr>) = image_filter rt b"
  "finish_command rt (b\<lparr>background := x\<rparr>) = finish_command rt b"
proof -
  show audio: "has_audio (b\<lparr>background := x\<rparr>) = has_audio b"
    by (simp add: has_audio_def)
  show caps: "has_captions (b\<lparr>background := x\<rparr>) = has_captions b"
    by (simp add: has_captions_def)
  show "audio_duration rt (b\<lparr>background := x\<rparr>) = audio_duration rt b"
    by (simp add: audio_duration_def cong: option.case_cong if_cong)
  show "image_filter rt (b\<lparr>background := x\<rparr>) = image_filter rt b"
    by (simp add: image_filter_def fun_eq_iff)
  have "add_captions rt (b\<lparr>background := x\<rparr>) = add_captions rt b"
    by (simp add: add_captions_def caps subtitle_file_def fun_eq_iff)
  moreover have "audio_input (b\<lparr>background := x\<rparr>) = audio_input b"
    by (simp add: audio_input_def)
  moreover have "audio_codec rt (b\<lparr>background := x\<rparr>) = audio_codec rt b"
    by (simp add: audio_codec_def audio fun_eq_iff)
  ultimately show "finish_command rt (b\<lparr>background := x\<rparr>) = finish_command rt b"
    by (simp add: finish_command_def audio fun_eq_iff)
qed

lemma add_background_frame:
  "add_background rt (b\<lparr>background := x\<rparr>) bg d i = add_background rt b bg d i"
  by (cases bg)
     (simp_all add: add_background_image add_background_video background_update_frame
        video_filter_def cong: sum.case_cong)

lemma build_command_zoom_factor_text:
  assumes "background b = Some (ImageBackground file kb)"
    and "zoom_factor_text rt kb' = zoom_factor_text rt kb"
  shows "build_command rt (b\<lparr>background := Some (ImageBackground file kb')\<rparr>)
           = build_command rt b"
proof -
  have bg: "add_background rt b (ImageBackground file kb') d 0
      = add_background rt b (ImageBackground file kb) d 0" for d
    by (simp add: add_background_image assms(2) cong: sum.case_cong)
  show ?thesis
    using assms(1)
    by (simp add: build_command_def background_update_frame add_background_frame bg
        is_image_def is_video_def cong: sum.case_cong prod.case_cong)
qed

text \<open>
  Claim C5. For an image background, the command that is built holds the zoompan
  expression \<^verbatim>\<open>z='zoom+r':x=0:y=0\<close>, where \<open>r\<close> is the formatted \<^verbatim>\<open>"zoom_factor"\<close>
  entry of the pan and zoom configuration, or \<^verbatim>\<open>0.001\<close> without such an entry. Two
  configurations that agree on every key but \<^verbatim>\<open>"direction"\<close> give the same result of
  \<^verbatim>\<open>build_command\<close>.
\<close>

theorem zoom_preset_ignored:
  assumes "background b = Some (ImageBackground file kb)"
  shows "(\<forall>d n. has_audio b \<and> audio_duration rt b = Inr d \<and> duration_frames rt d = Inr n \<longrightarrow>
            build_command rt b =
              Inr (finish_command rt b d
                     [ffmpeg_path b, ''-y'', ''-loop'', ''1'', ''-t'', dur_str rt d, ''-i'', file]
                     [''[0]scale='' @ py_str rt (width b) @ '':-2,setsar=1:1,crop=''
                        @ py_str rt (width b) @ '':'' @ py_str rt (height b)
                        @ '',zoompan=z='' @ [quote] @ ''zoom+''
                        @ (case map_of kb ''zoom_factor'' of
                             None \<Rightarrow> ''0.001'' | Some v \<Rightarrow> py_str rt v)
                        @ [quote] @ '':x=0:y=0:d='' @ str_int (n + 1)
                        @ '':s='' @ py_str rt (width b) @ ''x'' @ py_str rt (height b)
                        @ '':fps=25[bg]'']))
     \<and> (\<forall>kb'. (\<forall>k. k \<noteq> ''direction'' \<longrightarrow> map_of kb' k = map_of kb k) \<longrightarrow>
            build_command rt (b\<lparr>background := Some (ImageBackground file kb')\<rparr>)
              = build_command rt b)"
proof -
  have stage: "image_filter rt b 0 ze (n + 1) =
      ''[0]scale='' @ py_str rt (width b) @ '':-2,setsar=1:1,crop=''
        @ py_str rt (width b) @ '':'' @ py_str rt (height b)
        @ '',zoompan='' @ ze @ '':d='' @ str_int (n + 1)
        @ '':s='' @ py_str rt (width b) @ ''x'' @ py_str rt (height b)
        @ '':fps=25[bg]''" for ze n
    by (simp add: image_filter_def str_nat_0 str_int_fps)
  have emitted: "build_command rt b =
              Inr (finish_command rt b d
                     [ffmpeg_path b, ''-y'', ''-loop'', ''1'', ''-t'', dur_str rt d, ''-i'', file]
                     [''[0]scale='' @ py_str rt (width b) @ '':-2,setsar=1:1,crop=''
                        @ py_str rt (width b) @ '':'' @ py_str rt (height b)
                        @ '',zoompan=z='' @ [quote] @ ''zoom+''
                        @ (case map_of kb ''zoom_factor'' of
                             None \<Rightarrow> ''0.001'' | Some v \<Rightarrow> py_str rt v)
                        @ [quote] @ '':x=0:y=0:d='' @ str_int (n + 1)
                        @ '':s='' @ py_str rt (width b) @ ''x'' @ py_str rt (height b)
                        @ '':fps=25[bg]''])"
    if "has_audio b" "audio_duration rt b = Inr d" "duration_frames rt d = Inr n" for d n
    unfolding build_command_image [OF assms that]
    by (simp add: stage zoom_factor_text_def)
  have same: "build_command rt (b\<lparr>background := Some (ImageBackground file kb')\<rparr>)
              = build_command rt b"
    if "\<forall>k. k \<noteq> ''direction'' \<longrightarrow> map_of kb' k = map_of kb k" for kb'
    using build_command_zoom_factor_text [OF assms zoom_factor_text_direction [OF that]] .
  from emitted same show ?thesis by blast
qed

theorem zoom_preset_ignored_witness:
  "build_command nan_runtime
     (set_media_utils inspector_10 (set_audio ''voice.mp3''
        (set_background_image ''bg.jpg''
           (Some [(''direction'', PyStr ''zoom-to-center''), (''zoom_factor'', PyNum (PyInt 2))])
           new_builder)))
   = Inr [''ffmpeg'', ''-y'', ''-loop'', ''1'', ''-t'', ''10'', ''-i'', ''bg.jpg'',
        ''-i'', ''voice.mp3'',
        ''-filter_complex'',
        ''[0]scale=1080:-2,setsar=1:1,crop=1080:1920,zoompan=z='' @ [quote] @ ''zoom+2''
          @ [quote] @ '':x=0:y=0:d=251:s=1080x1920:fps=25[bg];[bg]copy[v]'',
        ''-map'', ''[v]'', ''-map'', ''1:a'',
        ''-c:v'', ''libx264'', ''-preset'', ''ultrafast'', ''-crf'', ''23'', ''-pix_fmt'',
        ''yuv420p'',
        ''-c:a'', ''aac'', ''-b:a'', ''192k'', ''-t'', ''10'',
        ''output.mp4'']
   \<and> build_command nan_runtime
     (set_media_utils inspector_10 (set_audio ''voice.mp3''
        (set_background_image ''bg.jpg''
           (Some [(''direction'', PyStr ''zoom-to-top''), (''zoom_factor'', PyNum (PyInt 2))])
           new_builder)))
   = build_command nan_runtime
     (set_media_utils inspector_10 (set_audio ''voice.mp3''
        (set_background_image ''bg.jpg''
           (Some [(''direction'', PyStr ''zoom-to-center''), (''zoom_factor'', PyNum (PyInt 2))])
           new_builder)))"
proof -
  let ?kb = "[(''direction'', PyStr ''zoom-to-center''), (''zoom_factor'', PyNum (PyInt 2))]
               :: unit dict"
  let ?kb' = "[(''direction'', PyStr ''zoom-to-top''), (''zoom_factor'', PyNum (PyInt 2))]
               :: unit dict"
  let ?b = "set_media_utils inspector_10 (set_audio ''voice.mp3''
              (set_background_image ''bg.jpg'' (Some ?kb) new_builder))"
  let ?b' = "set_media_utils inspector_10 (set_audio ''voice.mp3''
              (set_background_image ''bg.jpg'' (Some ?kb') new_builder))"
  have bg: "background ?b = Some (ImageBackground ''bg.jpg'' ?kb)"
    by (simp add: set_media_utils_def set_audio_def set_background_image_def or_empty_def)
  note t = zoom_preset_ignored [OF bg, of nan_runtime]
  have audio: "has_audio ?b"
    by (simp add: has_audio_def set_media_utils_def set_audio_def set_background_image_def)
  have d: "audio_duration nan_runtime ?b = Inr (Some (PyInt 10))"
    by (simp add: audio_duration_def set_media_utils_def set_audio_def
        set_background_image_def inspector_10_def reported_duration_def dur_bool_def)
  have n: "duration_frames nan_runtime (Some (PyInt 10)) = Inr 250"
    by (simp add: duration_frames_def fps_def)
  from t audio d n have cmd: "build_command nan_runtime ?b =
      Inr (finish_command nan_runtime ?b (Some (PyInt 10))
             [ffmpeg_path ?b, ''-y'', ''-loop'', ''1'', ''-t'',
              dur_str nan_runtime (Some (PyInt 10)), ''-i'', ''bg.jpg'']
             [''[0]scale='' @ py_str nan_runtime (width ?b) @ '':-2,setsar=1:1,crop=''
                @ py_str nan_runtime (width ?b) @ '':'' @ py_str nan_runtime (height ?b)
                @ '',zoompan=z='' @ [quote] @ ''zoom+''
                @ (case map_of ?kb ''zoom_factor'' of
                     None \<Rightarrow> ''0.001'' | Some v \<Rightarrow> py_str nan_runtime v)
                @ [quote] @ '':x=0:y=0:d='' @ str_int (250 + 1)
                @ '':s='' @ py_str nan_runtime (width ?b) @ ''x''
                @ py_str nan_runtime (height ?b) @ '':fps=25[bg]''])"
    by blast
  have first: "build_command nan_runtime ?b =
     Inr [''ffmpeg'', ''-y'', ''-loop'', ''1'', ''-t'', ''10'', ''-i'', ''bg.jpg'',
        ''-i'', ''voice.mp3'',
        ''-filter_complex'',
        ''[0]scale=1080:-2,setsar=1:1,crop=1080:1920,zoompan=z='' @ [quote] @ ''zoom+2''
          @ [quote] @ '':x=0:y=0:d=251:s=1080x1920:fps=25[bg];[bg]copy[v]'',
        ''-map'', ''[v]'', ''-map'', ''1:a'',
        ''-c:v'', ''libx264'', ''-preset'', ''ultrafast'', ''-crf'', ''23'', ''-pix_fmt'',
        ''yuv420p'',
        ''-c:a'', ''aac'', ''-b:a'', ''192k'', ''-t'', ''10'',
        ''output.mp4'']"
    unfolding cmd
    by (simp add: finish_command_def audio_input_def audio_codec_def add_captions_def
        has_audio_def has_captions_def dur_bool_def dur_str_def
        set_media_utils_def set_audio_def set_background_image_def new_builder_def
        str_int_def str_nat.simps digit_char_def)
  have agree: "\<forall>k. k \<noteq> ''direction'' \<longrightarrow> map_of ?kb' k = map_of ?kb k"
    by simp
  have upd: "?b\<lparr>background := Some (ImageBackground ''bg.jpg'' ?kb')\<rparr> = ?b'"
    by (simp add: set_media_utils_def set_audio_def set_background_image_def or_empty_def)
  from t agree have "build_command nan_runtime
      (?b\<lparr>background := Some (ImageBackground ''bg.jpg'' ?kb')\<rparr>)
      = build_command nan_runtime ?b"
    by blast
  then have second: "build_command nan_runtime ?b' = build_command nan_runtime ?b"
    unfolding upd .
  from first second show ?thesis by (rule conjI)
qed

section \<open>The caption stage\<close>

lemma add_background_single:
  assumes "add_background rt b bg d 0 = Inr (bg_input, bg_filter)"
  shows "length bg_filter = 1" and "''[bg]copy[v]'' \<notin> set bg_filter"
proof -
  have "\<exists>rest. bg_filter = [''[0]'' @ rest]"
  proof (cases bg)
    case (ImageBackground path kb)
    with assms show ?thesis
      by (auto simp: add_background_image image_filter_def str_nat_0 split: sum.splits)
  next
    case (VideoBackground path)
    with assms show ?thesis
      by (auto simp: add_background_video video_filter_def str_nat_0)
  qed
  then obtain rest where "bg_filter = [''[0]'' @ rest]" ..
  then show "length bg_filter = 1" and "''[bg]copy[v]'' \<notin> set bg_filter"
    by simp_all
qed

text \<open>
  Claim C6. For a specification that passes validation, whose duration is resolved and
  whose background stage is built, with a caption record that is set but holds no file
  (\<^verbatim>\<open>captions.get("file")\<close> is false): the caption stage adds no filter stage and leaves
  the label unchanged, so the filter graph is the background stage alone and the video
  mapping is \<^verbatim>\<open>-map [bg]\<close>.
\<close>

theorem caption_without_file:
  assumes "background b = Some bg" and "is_image bg \<longrightarrow> has_audio b"
    and "has_captions b" and "\<not> py_bool rt (subtitle_file b)"
    and "audio_duration rt b = Inr d"
    and "add_background rt b bg d 0 = Inr (bg_input, bg_filter)"
  shows "build_command rt b =
      Inr ([ffmpeg_path b, ''-y''] @ bg_input @ audio_input b
           @ [''-filter_complex'', join '';'' bg_filter, ''-map'', ''[bg]'']
           @ (if has_audio b then [''-map'', ''1:a''] else [])
           @ [''-c:v'', ''libx264'', ''-preset'', ''ultrafast'', ''-crf'', ''23'',
              ''-pix_fmt'', ''yuv420p'']
           @ audio_codec rt b d @ [output_path b])
    \<and> add_captions rt b bg_filter ''[bg]'' = (bg_filter, ''[bg]'')
    \<and> length bg_filter = 1"
proof -
  have caps: "add_captions rt b bg_filter ''[bg]'' = (bg_filter, ''[bg]'')"
    using assms(3,4) by (rule add_captions_no_file)
  have len: "length bg_filter = 1"
    using assms(6) by (rule add_background_single)
  then have ne: "bg_filter \<noteq> []" by auto
  have "build_command rt b =
      Inr (finish_command rt b d ([ffmpeg_path b, ''-y''] @ bg_input) bg_filter)"
    using assms(2,3,5,6) by (simp add: build_command_valid [OF assms(1)])
  then show ?thesis
    using caps len ne by (simp add: finish_command_eq)
qed

theorem caption_without_file_witness:
  "build_command nan_runtime
     (set_captions None None (set_background_video ''clip.mp4'' new_builder)) =
   Inr [''ffmpeg'', ''-y'', ''-i'', ''clip.mp4'',
        ''-filter_complex'', ''[0]scale=1080:1920[bg]'', ''-map'', ''[bg]'',
        ''-c:v'', ''libx264'', ''-preset'', ''ultrafast'', ''-crf'', ''23'', ''-pix_fmt'',
        ''yuv420p'', ''output.mp4'']"
proof -
  let ?b = "set_captions None None (set_background_video ''clip.mp4'' new_builder)"
  have bg: "background ?b = Some (VideoBackground ''clip.mp4'')"
    by (simp add: set_captions_def set_background_video_def)
  have img: "is_image (VideoBackground ''clip.mp4'' :: unit background) \<longrightarrow> has_audio ?b"
    by (simp add: is_image_def)
  have caps: "has_captions ?b"
    by (simp add: has_captions_def set_captions_def or_empty_def)
  have nofile: "\<not> py_bool nan_runtime (subtitle_file ?b)"
    by (simp add: subtitle_file_def set_captions_def or_empty_def)
  have noaudio: "\<not> has_audio ?b"
    by (simp add: has_audio_def set_captions_def set_background_video_def new_builder_def)
  then have d: "audio_duration nan_runtime ?b = Inr None"
    by (rule audio_duration_no_audio)
  have stage: "add_background nan_runtime ?b (VideoBackground ''clip.mp4'') None 0 =
      Inr ([''-i'', ''clip.mp4''], [''[0]scale=1080:1920[bg]''])"
    by (simp add: add_background_video dur_bool_def video_filter_def set_captions_def
        set_background_video_def new_builder_def str_int_def str_nat.simps digit_char_def)
  have rest: "audio_input ?b = []" "audio_codec nan_runtime ?b None = []"
    "ffmpeg_path ?b = ''ffmpeg''" "output_path ?b = ''output.mp4''"
    using noaudio
    by (simp_all add: no_audio_input audio_codec_def set_captions_def
        set_background_video_def new_builder_def)
  from caption_without_file [OF bg img caps nofile d stage] show ?thesis
    by (simp add: noaudio rest)
qed

text \<open>
  Claim C7. For a specification that passes validation with no caption record (which
  needs an audio file), whose duration is resolved and whose background stage is built:
  the filter graph is the background stage followed by the one stage \<^verbatim>\<open>[bg]copy[v]\<close>,
  which occurs once, and the video mapping is \<^verbatim>\<open>-map [v]\<close>.
\<close>

theorem no_captions_copy_stage:
  assumes "background b = Some bg" and "has_audio b" and "captions b = None"
    and "audio_duration rt b = Inr d"
    and "add_background rt b bg d 0 = Inr (bg_input, bg_filter)"
  shows "build_command rt b =
      Inr ([ffmpeg_path b, ''-y''] @ bg_input @ audio_input b
           @ [''-filter_complex'', join '';'' (bg_filter @ [''[bg]copy[v]'']),
              ''-map'', ''[v]'', ''-map'', ''1:a'',
              ''-c:v'', ''libx264'', ''-preset'', ''ultrafast'', ''-crf'', ''23'',
              ''-pix_fmt'', ''yuv420p'']
           @ audio_codec rt b d @ [output_path b])
    \<and> add_captions rt b bg_filter ''[bg]'' = (bg_filter @ [''[bg]copy[v]''], ''[v]'')
    \<and> length bg_filter = 1
    \<and> count_list (bg_filter @ [''[bg]copy[v]'']) ''[bg]copy[v]'' = 1"
proof -
  have caps: "add_captions rt b bg_filter ''[bg]'' = (bg_filter @ [''[bg]copy[v]''], ''[v]'')"
    using assms(3) by (rule add_captions_none)
  have len: "length bg_filter = 1" and notin: "''[bg]copy[v]'' \<notin> set bg_filter"
    using add_background_single [OF assms(5)] by simp_all
  have once: "count_list (bg_filter @ [''[bg]copy[v]'']) ''[bg]copy[v]'' = 1"
    using notin by (simp add: count_list_0_iff)
  have "build_command rt b =
      Inr (finish_command rt b d ([ffmpeg_path b, ''-y''] @ bg_input) bg_filter)"
    using assms(2,4,5) by (simp add: build_command_valid [OF assms(1)])
  then show ?thesis
    using caps len once assms(2) by (simp add: finish_command_eq)
qed

theorem no_captions_copy_stage_witness:
  "build_command nan_runtime
     (set_media_utils inspector_10
        (set_audio ''voice.mp3'' (set_background_video ''clip.mp4'' new_builder))) =
   Inr [''ffmpeg'', ''-y'', ''-stream_loop'', ''-1'', ''-t'', ''10'', ''-i'', ''clip.mp4'',
        ''-i'', ''voice.mp3'',
        ''-filter_complex'', ''[0]scale=1080:1920[bg];[bg]copy[v]'', ''-map'', ''[v]'',
        ''-map'', ''1:a'',
        ''-c:v'', ''libx264'', ''-preset'', ''ultrafast'', ''-crf'', ''23'', ''-pix_fmt'',
        ''yuv420p'', ''-c:a'', ''aac'', ''-b:a'', ''192k'', ''-t'', ''10'', ''output.mp4'']"
proof -
  let ?b = "set_media_utils inspector_10
        (set_audio ''voice.mp3'' (set_background_video ''clip.mp4'' new_builder))"
  have bg: "background ?b = Some (VideoBackground ''clip.mp4'')"
    by (simp add: set_media_utils_def set_audio_def set_background_video_def)
  have audio: "has_audio ?b"
    by (simp add: has_audio_def set_media_utils_def set_audio_def)
  have caps: "captions ?b = None"
    by (simp add: set_media_utils_def set_audio_def set_background_video_def new_builder_def)
  have d: "audio_duration nan_runtime ?b = Inr (Some (PyInt 10))"
    by (simp add: audio_duration_def set_media_utils_def set_audio_def
        inspector_10_def reported_duration_def dur_bool_def)
  have ten: "dur_str nan_runtime (Some (PyInt 10)) = ''10''"
    by (simp add: dur_str_def str_int_def str_nat.simps digit_char_def)
  have stage: "add_background nan_runtime ?b (VideoBackground ''clip.mp4'') (Some (PyInt 10)) 0 =
      Inr ([''-stream_loop'', ''-1'', ''-t'', ''10'', ''-i'', ''clip.mp4''],
           [''[0]scale=1080:1920[bg]''])"
    by (simp add: add_background_video dur_bool_def ten video_filter_def set_media_utils_def
        set_audio_def set_background_video_def new_builder_def str_int_def str_nat.simps
        digit_char_def)
  have rest: "audio_input ?b = [''-i'', ''voice.mp3'']"
    "audio_codec nan_runtime ?b (Some (PyInt 10)) =
       [''-c:a'', ''aac'', ''-b:a'', ''192k'', ''-t'', ''10'']"
    "ffmpeg_path ?b = ''ffmpeg''" "output_path ?b = ''output.mp4''"
    using audio
    by (simp_all add: audio_input_def audio_codec_def dur_bool_def ten set_media_utils_def
        set_audio_def set_background_video_def new_builder_def)
  from no_captions_copy_stage [OF bg audio caps d stage] show ?thesis
    by (simp add: rest)
qed

section \<open>Video backgrounds\<close>

text \<open>
  Claim C8. For a video background: with an audio file (a non-empty path) whose
  duration \<open>d\<close> is resolved, the background input is \<^verbatim>\<open>-stream_loop -1 -t str(d) -i file\<close>;
  without an audio file and with a caption record, it is \<^verbatim>\<open>-i file\<close> alone. In both
  cases the background adds the one filter stage \<^verbatim>\<open>[0]scale=width:height[bg]\<close>, and
  without audio the command has no second input, no audio mapping, no audio codec flags
  and no duration cap.
\<close>

theorem video_background_command:
  assumes "background b = Some (VideoBackground path)"
  shows "(\<forall>a d. audio_file b = Some a \<and> a \<noteq> [] \<and> audio_duration rt b = Inr (Some d) \<longrightarrow>
            build_command rt b =
              Inr [ffmpeg_path b, ''-y'',
                   ''-stream_loop'', ''-1'', ''-t'', num_str rt d, ''-i'', path,
                   ''-i'', a,
                   ''-filter_complex'',
                   join '';'' (fst (add_captions rt b
                     [''[0]scale='' @ py_str rt (width b) @ '':'' @ py_str rt (height b)
                        @ ''[bg]''] ''[bg]'')),
                   ''-map'',
                   snd (add_captions rt b
                     [''[0]scale='' @ py_str rt (width b) @ '':'' @ py_str rt (height b)
                        @ ''[bg]''] ''[bg]''),
                   ''-map'', ''1:a'',
                   ''-c:v'', ''libx264'', ''-preset'', ''ultrafast'', ''-crf'', ''23'',
                   ''-pix_fmt'', ''yuv420p'',
                   ''-c:a'', ''aac'', ''-b:a'', ''192k'', ''-t'', num_str rt d,
                   output_path b])
     \<and> (\<not> has_audio b \<and> has_captions b \<longrightarrow>
            build_command rt b =
              Inr [ffmpeg_path b, ''-y'',
                   ''-i'', path,
                   ''-filter_complex'',
                   join '';'' (fst (add_captions rt b
                     [''[0]scale='' @ py_str rt (width b) @ '':'' @ py_str rt (height b)
                        @ ''[bg]''] ''[bg]'')),
                   ''-map'',
                   snd (add_captions rt b
                     [''[0]scale='' @ py_str rt (width b) @ '':'' @ py_str rt (height b)
                        @ ''[bg]''] ''[bg]''),
                   ''-c:v'', ''libx264'', ''-preset'', ''ultrafast'', ''-crf'', ''23'',
                   ''-pix_fmt'', ''yuv420p'',
                   output_path b])"
proof -
  have stage: "video_filter rt b 0 =
      ''[0]scale='' @ py_str rt (width b) @ '':'' @ py_str rt (height b) @ ''[bg]''"
    by (simp add: video_filter_def str_nat_0)
  have with_audio: "build_command rt b =
              Inr [ffmpeg_path b, ''-y'',
                   ''-stream_loop'', ''-1'', ''-t'', num_str rt d, ''-i'', path,
                   ''-i'', a,
                   ''-filter_complex'',
                   join '';'' (fst (add_captions rt b
                     [''[0]scale='' @ py_str rt (width b) @ '':'' @ py_str rt (height b)
                        @ ''[bg]''] ''[bg]'')),
                   ''-map'',
                   snd (add_captions rt b
                     [''[0]scale='' @ py_str rt (width b) @ '':'' @ py_str rt (height b)
                        @ ''[bg]''] ''[bg]''),
                   ''-map'', ''1:a'',
                   ''-c:v'', ''libx264'', ''-preset'', ''ultrafast'', ''-crf'', ''23'',
                   ''-pix_fmt'', ''yuv420p'',
                   ''-c:a'', ''aac'', ''-b:a'', ''192k'', ''-t'', num_str rt d,
                   output_path b]"
    if a: "audio_file b = Some a" "a \<noteq> []" and d: "audio_duration rt b = Inr (Some d)"
    for a d
  proof -
    have audio: "has_audio b" "audio_input b = [''-i'', a]"
      using has_audio_audio_input [OF a] by simp_all
    have known: "dur_bool rt (Some d)"
      using audio_duration_Inr [OF d] audio(1) by simp
    have codec: "audio_codec rt b (Some d) =
        [''-c:a'', ''aac'', ''-b:a'', ''192k'', ''-t'', num_str rt d]"
      using audio(1) known by (simp add: audio_codec_def dur_str_def)
    have "build_command rt b =
        Inr (finish_command rt b (Some d)
               [ffmpeg_path b, ''-y'', ''-stream_loop'', ''-1'', ''-t'', num_str rt d,
                ''-i'', path]
               [video_filter rt b 0])"
      using build_command_video [OF assms _ d] audio(1) known by (simp add: dur_str_def)
    then show ?thesis
      by (simp add: finish_command_eq audio codec stage add_captions_not_Nil)
  qed
  have without_audio: "build_command rt b =
              Inr [ffmpeg_path b, ''-y'',
                   ''-i'', path,
                   ''-filter_complex'',
                   join '';'' (fst (add_captions rt b
                     [''[0]scale='' @ py_str rt (width b) @ '':'' @ py_str rt (height b)
                        @ ''[bg]''] ''[bg]'')),
                   ''-map'',
                   snd (add_captions rt b
                     [''[0]scale='' @ py_str rt (width b) @ '':'' @ py_str rt (height b)
                        @ ''[bg]''] ''[bg]''),
                   ''-c:v'', ''libx264'', ''-preset'', ''ultrafast'', ''-crf'', ''23'',
                   ''-pix_fmt'', ''yuv420p'',
                   output_path b]"
    if na: "\<not> has_audio b" and caps: "has_captions b"
  proof -
    have d: "audio_duration rt b = Inr None"
      using na by (rule audio_duration_no_audio)
    have "build_command rt b =
        Inr (finish_command rt b None [ffmpeg_path b, ''-y'', ''-i'', path]
               [video_filter rt b 0])"
      using build_command_video [OF assms _ d] caps by (simp add: dur_bool_def)
    then show ?thesis
      using na
      by (simp add: finish_command_eq no_audio_input audio_codec_def stage
          add_captions_not_Nil)
  qed
  from with_audio without_audio show ?thesis by blast
qed

theorem video_background_command_witness:
  "build_command nan_runtime
     (set_media_utils inspector_10 (set_audio ''voice.mp3''
        (set_captions (Some ''subs.srt'') None
           (set_background_video ''clip.mp4'' new_builder)))) =
   Inr [''ffmpeg'', ''-y'', ''-stream_loop'', ''-1'', ''-t'', ''10'', ''-i'', ''clip.mp4'',
        ''-i'', ''voice.mp3'',
        ''-filter_complex'', ''[0]scale=1080:1920[bg];[bg]subtitles=subs.srt[v]'',
        ''-map'', ''[v]'', ''-map'', ''1:a'',
        ''-c:v'', ''libx264'', ''-preset'', ''ultrafast'', ''-crf'', ''23'', ''-pix_fmt'',
        ''yuv420p'', ''-c:a'', ''aac'', ''-b:a'', ''192k'', ''-t'', ''10'', ''output.mp4'']
   \<and> build_command nan_runtime
     (set_captions (Some ''subs.srt'') None (set_background_video ''clip.mp4'' new_builder)) =
   Inr [''ffmpeg'', ''-y'', ''-i'', ''clip.mp4'',
        ''-filter_complex'', ''[0]scale=1080:1920[bg];[bg]subtitles=subs.srt[v]'',
        ''-map'', ''[v]'',
        ''-c:v'', ''libx264'', ''-preset'', ''ultrafast'', ''-crf'', ''23'', ''-pix_fmt'',
        ''yuv420p'', ''output.mp4'']"
proof -
  let ?c = "set_captions (Some ''subs.srt'') None
              (set_background_video ''clip.mp4'' new_builder)"
  let ?b = "set_media_utils inspector_10 (set_audio ''voice.mp3'' ?c)"
  have dims: "str_int 1080 = ''1080''" "str_int 1920 = ''1920''" "str_int 10 = ''10''"
    by (simp_all add: str_int_def str_nat.simps digit_char_def)
  have bg: "background ?b = Some (VideoBackground ''clip.mp4'')"
    by (simp add: set_media_utils_def set_audio_def set_captions_def
        set_background_video_def)
  have a: "audio_file ?b = Some ''voice.mp3''"
    by (simp add: set_media_utils_def set_audio_def)
  have d: "audio_duration nan_runtime ?b = Inr (Some (PyInt 10))"
    by (simp add: audio_duration_def set_media_utils_def set_audio_def
        inspector_10_def reported_duration_def dur_bool_def)
  have fields: "ffmpeg_path ?b = ''ffmpeg''" "output_path ?b = ''output.mp4''"
    "width ?b = PyNum (PyInt 1080)" "height ?b = PyNum (PyInt 1920)"
    by (simp_all add: set_media_utils_def set_audio_def set_captions_def
        set_background_video_def new_builder_def)
  have caps: "add_captions nan_runtime ?b parts ''[bg]''
      = (parts @ [''[bg]subtitles=subs.srt[v]''], ''[v]'')" for parts
    by (simp add: add_captions_def has_captions_def subtitle_file_def set_media_utils_def
        set_audio_def set_captions_def or_empty_def)
  from video_background_command [OF bg, of nan_runtime] a d
  have first: "build_command nan_runtime ?b =
     Inr [''ffmpeg'', ''-y'', ''-stream_loop'', ''-1'', ''-t'', ''10'', ''-i'', ''clip.mp4'',
        ''-i'', ''voice.mp3'',
        ''-filter_complex'', ''[0]scale=1080:1920[bg];[bg]subtitles=subs.srt[v]'',
        ''-map'', ''[v]'', ''-map'', ''1:a'',
        ''-c:v'', ''libx264'', ''-preset'', ''ultrafast'', ''-crf'', ''23'', ''-pix_fmt'',
        ''yuv420p'', ''-c:a'', ''aac'', ''-b:a'', ''192k'', ''-t'', ''10'', ''output.mp4'']"
    by (simp add: fields caps dims)
  have bg': "background ?c = Some (VideoBackground ''clip.mp4'')"
    by (simp add: set_captions_def set_background_video_def)
  have na: "\<not> has_audio ?c" "has_captions ?c"
    by (simp_all add: has_audio_def has_captions_def set_captions_def
        set_background_video_def new_builder_def or_empty_def)
  have fields': "ffmpeg_path ?c = ''ffmpeg''" "output_path ?c = ''output.mp4''"
    "width ?c = PyNum (PyInt 1080)" "height ?c = PyNum (PyInt 1920)"
    by (simp_all add: set_captions_def set_background_video_def new_builder_def)
  have caps': "add_captions nan_runtime ?c parts ''[bg]''
      = (parts @ [''[bg]subtitles=subs.srt[v]''], ''[v]'')" for parts
    by (simp add: add_captions_def has_captions_def subtitle_file_def set_captions_def
        or_empty_def)
  from video_background_command [OF bg', of nan_runtime] na
  have second: "build_command nan_runtime ?c =
     Inr [''ffmpeg'', ''-y'', ''-i'', ''clip.mp4'',
        ''-filter_complex'', ''[0]scale=1080:1920[bg];[bg]subtitles=subs.srt[v]'',
        ''-map'', ''[v]'',
        ''-c:v'', ''libx264'', ''-preset'', ''ultrafast'', ''-crf'', ''23'', ''-pix_fmt'',
        ''yuv420p'', ''output.mp4'']"
    by (simp add: fields' caps' dims)
  from first second show ?thesis by (rule conjI)
qed

section \<open>Repeated calls\<close>

lemma run_keeps_self:
  "\<forall>s \<in> set ss. keeps_self s \<Longrightarrow> self (snd (run ss fr)) = self fr"
  by (induction ss arbitrary: fr) (auto simp: run.simps keeps_self_def split: sum.splits)

lemma statements_keep_self:
  "keeps_self check_background" "keeps_self check_audio_or_captions"
  "keeps_self check_image" "keeps_self check_video" "keeps_self (get_duration rt)"
  "keeps_self start_command" "keeps_self (background_input rt)" "keeps_self next_input"
  "keeps_self audio_input_statement" "keeps_self (captions_statement rt)"
  "keeps_self filter_complex" "keeps_self map_streams" "keeps_self video_codec"
  "keeps_self (audio_codec_statement rt)" "keeps_self append_output"
  by (auto simp: keeps_self_def check_background_def check_audio_or_captions_def
      check_image_def check_video_def get_duration_def start_command_def
      background_input_def next_input_def audio_input_statement_def captions_statement_def
      filter_complex_def map_streams_def video_codec_def audio_codec_statement_def
      append_output_def Let_def
      split: option.splits sum.splits if_splits background.splits)

lemma build_command_method_self: "snd (build_command_method rt b) = b"
proof -
  have "self (snd (run (build_command_body rt) (enter b))) = self (enter b)"
    by (rule run_keeps_self) (simp add: build_command_body_def statements_keep_self)
  then show ?thesis
    by (cases "run (build_command_body rt) (enter b)")
       (auto simp: build_command_method_def enter_def split: option.splits)
qed

lemma run_validation:
  "run (check_background # check_audio_or_captions # check_image # check_video # ss) fr =
     (case background (self fr) of
        None \<Rightarrow> (Some no_background, fr)
      | Some bg \<Rightarrow>
          if \<not> has_audio (self fr) \<and> \<not> has_captions (self fr)
          then (Some no_audio_no_captions, fr)
          else if is_image bg \<and> \<not> has_audio (self fr) then (Some image_without_audio, fr)
          else if is_video bg \<and> \<not> has_audio (self fr) \<and> captions (self fr) = None
            then (Some video_without_audio_or_captions, fr)
          else run ss fr)"
  by (simp add: run.simps check_background_def check_audio_or_captions_def check_image_def
      check_video_def split: option.splits)

lemma get_duration_eq:
  "get_duration rt fr =
     (case audio_duration rt (self fr) of
        Inl e \<Rightarrow> Inl e
      | Inr d \<Rightarrow> Inr (fr\<lparr>l_audio_duration := d\<rparr>))"
  by (simp add: get_duration_def audio_duration_def Let_def split: option.splits sum.splits)

lemma background_input_eq:
  "background (self fr) = Some bg \<Longrightarrow>
   background_input rt fr =
     (case add_background rt (self fr) bg (l_audio_duration fr) (l_input_index fr) of
        Inl e \<Rightarrow> Inl e
      | Inr (bg_input, bg_filter) \<Rightarrow>
          Inr (fr\<lparr>l_cmd := l_cmd fr @ bg_input,
                   l_filter_parts := l_filter_parts fr @ bg_filter\<rparr>))"
  by (cases bg)
     (simp_all add: background_input_def add_background_def Let_def split: sum.splits)

lemma run_finish:
  "l_input_index fr = 0 \<Longrightarrow>
   \<exists>fr'. run [next_input, audio_input_statement, captions_statement rt, filter_complex,
                map_streams, video_codec, audio_codec_statement rt, append_output] fr
            = (None, fr')
       \<and> l_cmd fr' = finish_command rt (self fr) (l_audio_duration fr) (l_cmd fr)
                       (l_filter_parts fr)"
  by (simp add: run.simps next_input_def audio_input_statement_def captions_statement_def
      filter_complex_def map_streams_def video_codec_def audio_codec_statement_def
      append_output_def Let_def finish_command_def add_captions_def audio_input_def
      audio_codec_def has_audio_def split: option.splits)


lemma run_Cons_Inl: "s fr = Inl e \<Longrightarrow> run (s # ss) fr = (Some e, fr)"
  by (simp add: run.simps)

lemma run_Cons_Inr: "s fr = Inr fr' \<Longrightarrow> run (s # ss) fr = run ss fr'"
  by (simp add: run.simps)

lemma run_assembly:
  assumes "background b = Some bg"
  shows "(case run [get_duration rt, start_command, background_input rt,
                    next_input, audio_input_statement, captions_statement rt,
                    filter_complex, map_streams, video_codec, audio_codec_statement rt,
                    append_output] (enter b) of
            (None, fr) \<Rightarrow> Inr (l_cmd fr)
          | (Some e, fr) \<Rightarrow> Inl e) =
     (case audio_duration rt b of
        Inl e \<Rightarrow> Inl e
      | Inr d \<Rightarrow>
          (case add_background rt b bg d 0 of
             Inl e \<Rightarrow> Inl e
           | Inr (bg_input, bg_filter) \<Rightarrow>
               Inr (finish_command rt b d ([ffmpeg_path b, ''-y''] @ bg_input) bg_filter)))"
proof (cases "audio_duration rt b")
  case (Inl e)
  then have "get_duration rt (enter b) = Inl e"
    by (simp add: get_duration_eq enter_def)
  then show ?thesis
    using Inl by (simp add: run_Cons_Inl)
next
  case (Inr d)
  define fr2 where "fr2 = (enter b)\<lparr>l_audio_duration := d, l_cmd := [ffmpeg_path b, ''-y''],
      l_filter_parts := [], l_input_index := 0\<rparr>"
  have fr2: "self fr2 = b" "l_audio_duration fr2 = d" "l_cmd fr2 = [ffmpeg_path b, ''-y'']"
    "l_filter_parts fr2 = []" "l_input_index fr2 = 0"
    by (simp_all add: fr2_def enter_def)
  have "get_duration rt (enter b) = Inr ((enter b)\<lparr>l_audio_duration := d\<rparr>)"
    using Inr by (simp add: get_duration_eq enter_def)
  moreover have "start_command ((enter b)\<lparr>l_audio_duration := d\<rparr>) = Inr fr2"
    by (simp add: start_command_def fr2_def enter_def)
  ultimately have start: "run (get_duration rt # start_command # ss) (enter b) = run ss fr2"
    for ss
    by (simp add: run_Cons_Inr)
  show ?thesis
  proof (cases "add_background rt b bg d 0")
    case (Inl e)
    then have "background_input rt fr2 = Inl e"
      using assms by (simp add: background_input_eq fr2)
    then show ?thesis
      using Inr Inl by (simp add: start run_Cons_Inl)
  next
    case r: (Inr p)
    obtain bg_input bg_filter where p: "p = (bg_input, bg_filter)" by (cases p)
    define fr3 where "fr3 = fr2\<lparr>l_cmd := l_cmd fr2 @ bg_input,
        l_filter_parts := l_filter_parts fr2 @ bg_filter\<rparr>"
    have fr3: "self fr3 = b" "l_audio_duration fr3 = d"
      "l_cmd fr3 = [ffmpeg_path b, ''-y''] @ bg_input" "l_filter_parts fr3 = bg_filter"
      "l_input_index fr3 = 0"
      by (simp_all add: fr3_def fr2)
    have step: "background_input rt fr2 = Inr fr3"
      using r p assms by (simp add: background_input_eq fr2 fr3_def)
    from run_finish [OF fr3(5), of rt] obtain fr' where
      "run [next_input, audio_input_statement, captions_statement rt, filter_complex,
            map_streams, video_codec, audio_codec_statement rt, append_output] fr3
         = (None, fr')"
      and "l_cmd fr' = finish_command rt (self fr3) (l_audio_duration fr3) (l_cmd fr3)
                         (l_filter_parts fr3)"
      by blast
    moreover have "run (background_input rt # ss) fr2 = run ss fr3" for ss
      using step by (rule run_Cons_Inr)
    ultimately show ?thesis
      using Inr r p by (simp add: start fr3)
  qed
qed

lemma build_command_method_result: "fst (build_command_method rt b) = build_command rt b"
proof (cases "background b")
  case None
  then show ?thesis
    by (simp add: build_command_method_def build_command_body_def run_validation
        build_command_def enter_def)
next
  case (Some bg)
  have self: "self (enter b) = b" by (simp add: enter_def)
  show ?thesis
    using Some run_assembly [OF Some, of rt]
    by (simp add: build_command_method_def build_command_body_def run_validation self
        build_command_def split: prod.splits option.splits)
qed

text \<open>
  Claim C9. A call of \<^verbatim>\<open>build_command\<close>, executed statement by statement, leaves the
  builder as it was: no statement updates \<^verbatim>\<open>self\<close>. A second call, on the builder the
  first call left, gives the result of the first: the same token sequence when the
  first call succeeds (and the same error when it fails). The result of the call is
  that of \<open>build_command\<close>.
\<close>

theorem build_command_idempotent:
  "snd (build_command_method rt b) = b
   \<and> fst (build_command_method rt (snd (build_command_method rt b)))
       = fst (build_command_method rt b)
   \<and> fst (build_command_method rt b) = build_command rt b"
  by (simp add: build_command_method_self build_command_method_result)

section \<open>The caption record\<close>

lemma captions_update_frame:
  "has_audio (b\<lparr>captions := c\<rparr>) = has_audio b"
  "audio_duration rt (b\<lparr>captions := c\<rparr>) = audio_duration rt b"
  "add_background rt (b\<lparr>captions := c\<rparr>) bg d i = add_background rt b bg d i"
  "audio_input (b\<lparr>captions := c\<rparr>) = audio_input b"
  "audio_codec rt (b\<lparr>captions := c\<rparr>) = audio_codec rt b"
proof -
  show audio: "has_audio (b\<lparr>captions := c\<rparr>) = has_audio b"
    by (simp add: has_audio_def)
  show "audio_duration rt (b\<lparr>captions := c\<rparr>) = audio_duration rt b"
    by (simp add: audio_duration_def cong: option.case_cong if_cong)
  show "add_background rt (b\<lparr>captions := c\<rparr>) bg d i = add_background rt b bg d i"
    by (cases bg)
       (simp_all add: add_background_image add_background_video image_filter_def
          video_filter_def cong: sum.case_cong)
  show "audio_input (b\<lparr>captions := c\<rparr>) = audio_input b"
    by (simp add: audio_input_def)
  show "audio_codec rt (b\<lparr>captions := c\<rparr>) = audio_codec rt b"
    by (simp add: audio_codec_def audio fun_eq_iff)
qed

lemma build_command_captions_cong:
  assumes "has_captions (b\<lparr>captions := c1\<rparr>) = has_captions (b\<lparr>captions := c2\<rparr>)"
    and "(c1 = None) = (c2 = None)"
    and "subtitle_file (b\<lparr>captions := c1\<rparr>) = subtitle_file (b\<lparr>captions := c2\<rparr>)"
  shows "build_command rt (b\<lparr>captions := c1\<rparr>) = build_command rt (b\<lparr>captions := c2\<rparr>)"
proof -
  have caps: "add_captions rt (b\<lparr>captions := c1\<rparr>) = add_captions rt (b\<lparr>captions := c2\<rparr>)"
    by (simp add: add_captions_def assms(1,3) fun_eq_iff)
  have fin: "finish_command rt (b\<lparr>captions := c1\<rparr>) = finish_command rt (b\<lparr>captions := c2\<rparr>)"
    by (simp add: finish_command_def caps captions_update_frame fun_eq_iff)
  show ?thesis
    using assms(1,2)
    by (simp add: build_command_def captions_update_frame fin
        cong: option.case_cong sum.case_cong prod.case_cong if_cong)
qed

lemma set_captions_file:
  assumes "distinct (map fst config)" "map_of config ''file'' = Some v"
  shows "subtitle_file (set_captions file_path (Some config) b) = v"
    and "has_captions (set_captions file_path (Some config) b)"
proof -
  have "map_of (dict_merge [(''file'', case file_path of None \<Rightarrow> PyNone | Some p \<Rightarrow> PyStr p)]
            config) ''file'' = Some v"
    using assms by (simp add: map_of_dict_merge map_add_def)
  then show "subtitle_file (set_captions file_path (Some config) b) = v"
    by (simp add: subtitle_file_def set_captions_def or_empty_def)
  show "has_captions (set_captions file_path (Some config) b)"
    by (simp add: has_captions_def set_captions_def dict_merge_not_Nil)
qed

text \<open>
  Claim C10. When the \<^verbatim>\<open>config\<close> passed to \<^verbatim>\<open>set_captions\<close> has a \<^verbatim>\<open>"file"\<close> entry, the
  stored record holds that entry and not the \<^verbatim>\<open>file_path\<close> argument: the caption stage
  of \<^verbatim>\<open>build_command\<close> tests and formats the value of the config, and the result of
  \<^verbatim>\<open>build_command\<close> is the same whatever \<^verbatim>\<open>file_path\<close> was passed.
\<close>

theorem captions_config_file_overrides:
  assumes "distinct (map fst config)" and "map_of config ''file'' = Some v"
  shows "subtitle_file (set_captions file_path (Some config) b) = v
     \<and> has_captions (set_captions file_path (Some config) b)
     \<and> add_captions rt (set_captions file_path (Some config) b) parts label =
         (if py_bool rt v
          then (parts @ [label @ ''subtitles='' @ py_str rt v @ ''[v]''], ''[v]'')
          else (parts, label))
     \<and> build_command rt (set_captions file_path (Some config) b)
         = build_command rt (set_captions other_path (Some config) b)"
proof -
  note sf = set_captions_file [OF assms]
  have stage: "add_captions rt (set_captions file_path (Some config) b) parts label =
         (if py_bool rt v
          then (parts @ [label @ ''subtitles='' @ py_str rt v @ ''[v]''], ''[v]'')
          else (parts, label))"
    by (simp add: add_captions_def sf)
  have "build_command rt (set_captions file_path (Some config) b)
         = build_command rt (set_captions other_path (Some config) b)"
    unfolding set_captions_def
    by (rule build_command_captions_cong)
       (simp_all add: sf [unfolded set_captions_def])
  with sf stage show ?thesis by simp
qed

theorem captions_config_file_overrides_witness:
  "subtitle_file (set_captions (Some ''a.srt'') (Some [(''file'', PyStr ''b.srt'')])
      (set_background_video ''clip.mp4'' new_builder)) = PyStr ''b.srt''
   \<and> build_command nan_runtime
       (set_captions (Some ''a.srt'') (Some [(''file'', PyStr ''b.srt'')])
          (set_background_video ''clip.mp4'' new_builder))
     = build_command nan_runtime
       (set_captions None (Some [(''file'', PyStr ''b.srt'')])
          (set_background_video ''clip.mp4'' new_builder))
   \<and> add_captions nan_runtime
       (set_captions (Some ''a.srt'') (Some [(''file'', PyStr ''b.srt'')])
          (set_background_video ''clip.mp4'' new_builder))
       [''[0]scale=1080:1920[bg]''] ''[bg]''
     = ([''[0]scale=1080:1920[bg]'', ''[bg]subtitles=b.srt[v]''], ''[v]'')"
  using captions_config_file_overrides
    [of "[(''file'', PyStr ''b.srt'')]" "PyStr ''b.srt''" "Some ''a.srt''"
        "set_background_video ''clip.mp4'' new_builder" nan_runtime
        "[''[0]scale=1080:1920[bg]'']" "''[bg]''" None]
  by simp

end
